theory Spec2Isabelle
  imports Main "HOL-Library.Word"
begin

section \<open>The process manager of userprog/processmanager.cc\<close>

text \<open>
  The embedding follows \<^verbatim>\<open>code/userprog/processmanager.cc\<close> statement by statement.
  The waiter counts are the only \<^verbatim>\<open>int\<close> values the code computes with (\<^verbatim>\<open>++\<close> and
  \<^verbatim>\<open>--\<close>): they are 32-bit words, read as signed, and the arithmetic wraps around at
  the limits as the compiled code does. PIDs and status values are only copied and
  compared for equality; they are HOL integers. An array is a list; an index outside
  the array is undefined behaviour in C++ and is the result \<open>Inl OutOfBounds\<close> here, a
  dereferenced \<^verbatim>\<open>NULL\<close> is \<open>Inl NullPointer\<close>. A pointer that may be \<^verbatim>\<open>NULL\<close> is an
  \<open>option\<close>.
\<close>

type_synonym cint = "32 word"

subsection \<open>Constants of the headers\<close>

text \<open>
  \<^verbatim>\<open>MAX_PROCESSES\<close>, \<^verbatim>\<open>P_BLOCKED\<close> and \<^verbatim>\<open>P_RUNNING\<close> are defined in headers; the
  model takes them as parameters.
\<close>

record config =
  MAX_PROCESSES :: nat
  P_BLOCKED :: int
  P_RUNNING :: int

subsection \<open>Results\<close>

datatype fault = OutOfBounds | NullPointer

definition bind_fault :: "fault + 'a \<Rightarrow> ('a \<Rightarrow> fault + 'b) \<Rightarrow> fault + 'b" where
  "bind_fault m f = (case m of Inl e \<Rightarrow> Inl e | Inr x \<Rightarrow> f x)"

text \<open>
  The calls on the synchronisation objects and the statements that touch the shared
  per-PID arrays, in program order. Each operation returns the events of the calling
  thread. \<open>EvCount pid\<close> is a statement that writes \<^verbatim>\<open>processesWaitingOnPID[pid]\<close>,
  \<open>EvStatus pid\<close> one that writes \<^verbatim>\<open>pcbStatuses[pid]\<close>; the others are
  \<^verbatim>\<open>Acquire\<close>, \<^verbatim>\<open>Release\<close>, \<^verbatim>\<open>Wait\<close> and \<^verbatim>\<open>Broadcast\<close> on the lock and condition
  of the slot \<open>pid\<close>.
\<close>

datatype event =
  EvAcquire int
  | EvRelease int
  | EvWait int
  | EvBroadcast int
  | EvCount int
  | EvStatus int

subsection \<open>Arrays\<close>

definition in_range :: "int \<Rightarrow> 'a list \<Rightarrow> bool" where
  "in_range i xs \<longleftrightarrow> 0 \<le> i \<and> i < int (length xs)"

definition arr_get :: "'a list \<Rightarrow> int \<Rightarrow> fault + 'a" where
  "arr_get xs i = (if in_range i xs then Inr (xs ! nat i) else Inl OutOfBounds)"

definition arr_set :: "'a list \<Rightarrow> int \<Rightarrow> 'a \<Rightarrow> fault + 'a list" where
  "arr_set xs i v = (if in_range i xs then Inr (xs[nat i := v]) else Inl OutOfBounds)"

text \<open>
  \<^verbatim>\<open>a[i]++\<close> and \<^verbatim>\<open>a[i]--\<close> on an array of \<^verbatim>\<open>int\<close>: read, modify, write. The sum
  is taken in 32 bits: \<^verbatim>\<open>INT_MAX\<close> plus one is \<^verbatim>\<open>INT_MIN\<close>, \<^verbatim>\<open>INT_MIN\<close> minus one is
  \<^verbatim>\<open>INT_MAX\<close>.
\<close>

definition arr_add :: "cint list \<Rightarrow> int \<Rightarrow> cint \<Rightarrow> fault + cint list" where
  "arr_add xs i d = bind_fault (arr_get xs i) (\<lambda>c. arr_set xs i (c + d))"

subsection \<open>The identifier space\<close>

text \<open>
  Modelled from the spec: the class \<^verbatim>\<open>BitMap\<close> (\<^verbatim>\<open>Find\<close>, \<^verbatim>\<open>Clear\<close>, \<^verbatim>\<open>Test\<close>) is
  not part of the file. The spec describes it as a fixed-capacity set over the integers
  \<open>[0, MAX_PROCESSES)\<close> with \<^verbatim>\<open>find-first-free() -> index | exhausted\<close>, which marks
  the lowest free index, \<^verbatim>\<open>clear(index)\<close> and \<^verbatim>\<open>test(index) -> bool\<close>. A bit map is
  the list of its bits. \<^verbatim>\<open>getPID\<close> stores the result of \<^verbatim>\<open>Find\<close> in an \<^verbatim>\<open>int\<close>, so
  "exhausted" is an \<^verbatim>\<open>int\<close> that is no index: \<open>-1\<close>. An index outside the map
  does not return.
\<close>

type_synonym BitMap = "bool list"

text \<open>Modelled from the spec: the lowest free index of a bit map, if there is one.\<close>

fun firstClear :: "bool list \<Rightarrow> nat option" where
  "firstClear [] = None"
| "firstClear (b # bs) = (if \<not> b then Some 0 else map_option Suc (firstClear bs))"

text \<open>
  Modelled from the spec: \<^verbatim>\<open>BitMap::Find\<close>, "find-first-free() -> index | exhausted";
  it marks the lowest free index and returns it, or returns \<open>-1\<close> and changes nothing.
\<close>

definition Find :: "BitMap \<Rightarrow> int \<times> BitMap" where
  "Find bm = (case firstClear bm of
                None \<Rightarrow> (- 1, bm)
              | Some i \<Rightarrow> (int i, bm[i := True]))"

text \<open>Modelled from the spec: \<^verbatim>\<open>BitMap::Clear\<close>, "clear(index)".\<close>

definition Clear :: "BitMap \<Rightarrow> int \<Rightarrow> fault + BitMap" where
  "Clear bm which = arr_set bm which False"

text \<open>Modelled from the spec: \<^verbatim>\<open>BitMap::Test\<close>, "test(index) -> bool".\<close>

definition Test :: "BitMap \<Rightarrow> int \<Rightarrow> fault + bool" where
  "Test bm which = arr_get bm which"

subsection \<open>The state\<close>

text \<open>
  \<^verbatim>\<open>Lock\<close> and \<^verbatim>\<open>Condition\<close> objects are created with an empty name and only ever
  reached through their slot. A \<^verbatim>\<open>PCB*\<close> is an address; the PCB objects belong to the
  callers, and \<open>pcb_status\<close> gives the \<^verbatim>\<open>status\<close> field of the PCB at each address.
  The arrays \<^verbatim>\<open>processesWaitingOnPID\<close> and \<^verbatim>\<open>pcbStatuses\<close> are declared in the
  header; they are indexed by PID like the four lists the constructor allocates.
\<close>

datatype Lock = Lock string

datatype Condition = Condition string

type_synonym addr = nat

record state =
  processesBitMap :: BitMap
  pcbList :: "addr option list"
  conditionList :: "Condition option list"
  lockList :: "Lock option list"
  addrSpaceList :: "addr option list"
  numAvailPIDs :: int
  processesWaitingOnPID :: "cint list"
  pcbStatuses :: "int list"
  pcb_status :: "addr \<Rightarrow> int"

text \<open>
  The constructor (lines 17-31) sets the four pointer lists to \<^verbatim>\<open>NULL\<close> and leaves
  \<^verbatim>\<open>processesWaitingOnPID\<close> and \<^verbatim>\<open>pcbStatuses\<close> as they are found: their first
  contents \<open>w0\<close> and \<open>st0\<close> are arbitrary.
\<close>

definition ProcessManager :: "config \<Rightarrow> (nat \<Rightarrow> cint) \<Rightarrow> (nat \<Rightarrow> int) \<Rightarrow> (addr \<Rightarrow> int) \<Rightarrow> state" where
  "ProcessManager cfg w0 st0 h =
     \<lparr> processesBitMap = replicate (MAX_PROCESSES cfg) False,
       pcbList = replicate (MAX_PROCESSES cfg) None,
       conditionList = replicate (MAX_PROCESSES cfg) None,
       lockList = replicate (MAX_PROCESSES cfg) None,
       addrSpaceList = replicate (MAX_PROCESSES cfg) None,
       numAvailPIDs = int (MAX_PROCESSES cfg),
       processesWaitingOnPID = map w0 [0 ..< MAX_PROCESSES cfg],
       pcbStatuses = map st0 [0 ..< MAX_PROCESSES cfg],
       pcb_status = h \<rparr>"

subsection \<open>getStatus (lines 159-164)\<close>

definition getStatus :: "state \<Rightarrow> int \<Rightarrow> fault + int" where
  "getStatus s pid =
     bind_fault (Test (processesBitMap s) pid) (\<lambda>b.
       if \<not> b then Inr (- 1)
       else arr_get (pcbStatuses s) pid)"

subsection \<open>getPID (lines 50-56)\<close>

definition getPID :: "state \<Rightarrow> fault + (int \<times> state \<times> event list)" where
  "getPID s =
     (case Find (processesBitMap s) of (newPID, bm) \<Rightarrow>
        bind_fault (arr_set (processesWaitingOnPID s) newPID 0) (\<lambda>w.
        bind_fault (arr_add w newPID 1) (\<lambda>w'.
          Inr (newPID,
               s\<lparr>processesBitMap := bm, processesWaitingOnPID := w'\<rparr>,
               [EvCount newPID, EvCount newPID]))))"

subsection \<open>clearPID (lines 64-70)\<close>

definition clearPID :: "state \<Rightarrow> int \<Rightarrow> fault + (state \<times> event list)" where
  "clearPID s pid =
     bind_fault (arr_add (processesWaitingOnPID s) pid (- 1)) (\<lambda>w.
     bind_fault (arr_get w pid) (\<lambda>c.
       if c = 0 then
         bind_fault (Clear (processesBitMap s) pid) (\<lambda>bm.
           Inr (s\<lparr>processesWaitingOnPID := w, processesBitMap := bm\<rparr>, [EvCount pid]))
       else Inr (s\<lparr>processesWaitingOnPID := w\<rparr>, [EvCount pid])))"

subsection \<open>addProcess (lines 77-79)\<close>

definition addProcess :: "state \<Rightarrow> addr option \<Rightarrow> int \<Rightarrow> fault + (state \<times> event list)" where
  "addProcess s pcb pid =
     bind_fault (arr_set (pcbList s) pid pcb) (\<lambda>l. Inr (s\<lparr>pcbList := l\<rparr>, []))"

subsection \<open>join (lines 87-128)\<close>

text \<open>
  \<^verbatim>\<open>Condition::Wait\<close> suspends the caller; the other threads run meanwhile. \<open>join\<close>
  takes the list \<open>envs\<close> of what they do to the state during each suspension, in order,
  one element for each wakeup. When the list is used up the caller stays suspended in
  \<^verbatim>\<open>Wait\<close>: the result is \<open>Suspended\<close>. \<open>cur\<close> is the address
  \<^verbatim>\<open>currentThread->space->getPCB()\<close> of the caller's PCB. The \<^verbatim>\<open>fprintf\<close> calls only
  write to \<^verbatim>\<open>stderr\<close>, but their argument \<^verbatim>\<open>getStatus(pid)\<close> is evaluated.

  Threads interleave at \<^verbatim>\<open>Wait\<close> only: between two suspensions an operation runs as
  one step, as in a monitor. \<^verbatim>\<open>Acquire\<close> and \<^verbatim>\<open>Release\<close> are recorded as events
  of the caller; the classes \<^verbatim>\<open>Lock\<close> and \<^verbatim>\<open>Condition\<close> themselves are not part of
  the file.
\<close>

datatype outcome = Returned state | Suspended state

text \<open>Lines 89-109: up to the test \<^verbatim>\<open>pid != 0\<close>.\<close>

definition join_enter :: "config \<Rightarrow> state \<Rightarrow> addr \<Rightarrow> int \<Rightarrow> fault + (state \<times> event list)" where
  "join_enter cfg s cur pid =
     bind_fault (arr_get (lockList s) pid) (\<lambda>lockForOtherProcess.
     let s1 = (if lockForOtherProcess = None
               then s\<lparr>lockList := (lockList s)[nat pid := Some (Lock '''')]\<rparr> else s) in
     bind_fault (arr_get (conditionList s1) pid) (\<lambda>conditionForOtherProcess.
     let s2 = (if conditionForOtherProcess = None
               then s1\<lparr>conditionList := (conditionList s1)[nat pid := Some (Condition '''')]\<rparr>
               else s1) in
     bind_fault (arr_add (processesWaitingOnPID s2) pid 1) (\<lambda>w.
     let s3 = s2\<lparr>processesWaitingOnPID := w\<rparr> in
     bind_fault (getStatus s3 pid) (\<lambda>_.
       Inr (s3\<lparr>pcb_status := (pcb_status s3)(cur := P_BLOCKED cfg)\<rparr>,
            [EvAcquire pid, EvCount pid])))))"

text \<open>
  Lines 111-114: the loop, entered with the lock held. \<open>Returned s\<close> here means that the
  test has failed in the state \<open>s\<close> and the loop is left; an event \<open>EvWait\<close> is recorded
  at each call of \<^verbatim>\<open>Wait\<close>.
\<close>

fun wait_loop :: "state \<Rightarrow> int \<Rightarrow> (state \<Rightarrow> state) list \<Rightarrow> fault + (outcome \<times> event list)" where
  "wait_loop s pid [] =
     bind_fault (getStatus s pid) (\<lambda>st.
       if st \<noteq> - 1 then
         bind_fault (getStatus s pid) (\<lambda>_. Inr (Suspended s, [EvWait pid]))
       else Inr (Returned s, []))"
| "wait_loop s pid (env # envs) =
     bind_fault (getStatus s pid) (\<lambda>st.
       if st \<noteq> - 1 then
         bind_fault (getStatus s pid) (\<lambda>_.
         bind_fault (wait_loop (env s) pid envs) (\<lambda>(r, evs).
           Inr (r, EvWait pid # evs)))
       else Inr (Returned s, []))"

text \<open>Lines 116-127: after the loop.\<close>

definition join_leave :: "config \<Rightarrow> state \<Rightarrow> addr \<Rightarrow> int \<Rightarrow> fault + (state \<times> event list)" where
  "join_leave cfg s cur pid =
     (let s1 = s\<lparr>pcb_status := (pcb_status s)(cur := P_RUNNING cfg)\<rparr> in
      bind_fault (getStatus s1 pid) (\<lambda>_.
      bind_fault (arr_add (processesWaitingOnPID s1) pid (- 1)) (\<lambda>w.
      let s2 = s1\<lparr>processesWaitingOnPID := w\<rparr> in
      bind_fault (arr_get w pid) (\<lambda>c.
        if c = 0 then
          bind_fault (Clear (processesBitMap s2) pid) (\<lambda>bm.
            Inr (s2\<lparr>processesBitMap := bm\<rparr>, [EvCount pid, EvRelease pid]))
        else Inr (s2, [EvCount pid, EvRelease pid])))))"

definition join :: "config \<Rightarrow> state \<Rightarrow> addr \<Rightarrow> int \<Rightarrow> (state \<Rightarrow> state) list \<Rightarrow> fault + (outcome \<times> event list)" where
  "join cfg s cur pid envs =
     bind_fault (join_enter cfg s cur pid) (\<lambda>(s1, evs1).
     bind_fault (if pid \<noteq> 0 then wait_loop s1 pid envs else Inr (Returned s1, [])) (\<lambda>(r, evs2).
       case r of
         Suspended s2 \<Rightarrow> Inr (Suspended s2, evs1 @ evs2)
       | Returned s2 \<Rightarrow>
           bind_fault (join_leave cfg s2 cur pid) (\<lambda>(s3, evs3).
             Inr (Returned s3, evs1 @ evs2 @ evs3))))"

subsection \<open>broadcast (lines 136-152)\<close>

text \<open>
  \<^verbatim>\<open>Condition::Broadcast\<close> is called with the slot's lock pointer as it is; what it
  does with it is outside this file.
\<close>

definition broadcast :: "state \<Rightarrow> int \<Rightarrow> fault + (state \<times> event list)" where
  "broadcast s pid =
     bind_fault (arr_get (lockList s) pid) (\<lambda>lock.
     bind_fault (arr_get (conditionList s) pid) (\<lambda>condition.
     bind_fault (arr_get (pcbList s) pid) (\<lambda>pcb.
       case pcb of
         None \<Rightarrow> Inl NullPointer
       | Some a \<Rightarrow>
           bind_fault (arr_set (pcbStatuses s) pid (pcb_status s a)) (\<lambda>sts.
           let s1 = s\<lparr>pcbStatuses := sts\<rparr> in
           bind_fault (getStatus s1 pid) (\<lambda>_.
             if condition \<noteq> None then
               bind_fault (arr_get (processesWaitingOnPID s1) pid) (\<lambda>_.
                 Inr (s1, [EvStatus pid, EvBroadcast pid]))
             else Inr (s1, [EvStatus pid]))))))"

subsection \<open>The vocabulary of the specification\<close>

text \<open>
  \<open>member s pid\<close>: \<open>pid\<close> is in the identifier space; \<open>waiterCount\<close> and
  \<open>cachedStatus\<close> read the two arrays.
\<close>

definition member :: "state \<Rightarrow> int \<Rightarrow> bool" where
  "member s pid \<longleftrightarrow> Test (processesBitMap s) pid = Inr True"

definition waiterCount :: "state \<Rightarrow> int \<Rightarrow> cint" where
  "waiterCount s pid = processesWaitingOnPID s ! nat pid"

definition cachedStatus :: "state \<Rightarrow> int \<Rightarrow> int" where
  "cachedStatus s pid = pcbStatuses s ! nat pid"

text \<open>Every array has \<^verbatim>\<open>MAX_PROCESSES\<close> elements.\<close>

definition well_formed :: "config \<Rightarrow> state \<Rightarrow> bool" where
  "well_formed cfg s \<longleftrightarrow>
     length (processesBitMap s) = MAX_PROCESSES cfg \<and>
     length (pcbList s) = MAX_PROCESSES cfg \<and>
     length (conditionList s) = MAX_PROCESSES cfg \<and>
     length (lockList s) = MAX_PROCESSES cfg \<and>
     length (processesWaitingOnPID s) = MAX_PROCESSES cfg \<and>
     length (pcbStatuses s) = MAX_PROCESSES cfg"

text \<open>PID 0, while it is allocated, has at least one reference (the count is read as signed).\<close>

definition counts_ok :: "state \<Rightarrow> bool" where
  "counts_ok s \<longleftrightarrow> (if member s 0 then 1 \<le> sint (waiterCount s 0) else True)"

text \<open>
  The states the operations produce from a constructed manager. Each operation runs as
  one step. \<^verbatim>\<open>join(0)\<close> skips the loop, so it never reaches \<^verbatim>\<open>Wait\<close> and is one step
  as well; a \<^verbatim>\<open>join\<close> of another PID contributes its part before the loop and its part
  after it, with any steps of other threads between them (the part after the loop is a
  step from any state, whatever the PID). The owner of a PCB may change its status at any
  time.
\<close>

inductive reachable :: "config \<Rightarrow> state \<Rightarrow> bool" for cfg :: config where
  constructed: "reachable cfg (ProcessManager cfg w0 st0 h)"
| allocated: "reachable cfg s \<Longrightarrow> getPID s = Inr (p, s', evs) \<Longrightarrow> reachable cfg s'"
| released: "reachable cfg s \<Longrightarrow> clearPID s pid = Inr (s', evs) \<Longrightarrow> reachable cfg s'"
| registered: "reachable cfg s \<Longrightarrow> addProcess s pcb pid = Inr (s', evs) \<Longrightarrow> reachable cfg s'"
| notified: "reachable cfg s \<Longrightarrow> broadcast s pid = Inr (s', evs) \<Longrightarrow> reachable cfg s'"
| joined_zero: "reachable cfg s \<Longrightarrow> join cfg s cur 0 envs = Inr (Returned s', evs) \<Longrightarrow>
    reachable cfg s'"
| entered: "reachable cfg s \<Longrightarrow> pid \<noteq> 0 \<Longrightarrow> join_enter cfg s cur pid = Inr (s', evs) \<Longrightarrow>
    reachable cfg s'"
| left: "reachable cfg s \<Longrightarrow> join_leave cfg s cur pid = Inr (s', evs) \<Longrightarrow> reachable cfg s'"
| pcb_written: "reachable cfg s \<Longrightarrow> reachable cfg (s\<lparr>pcb_status := h'\<rparr>)"

text \<open>The state a joiner sees after the given suspensions.\<close>

definition wakeups :: "state \<Rightarrow> (state \<Rightarrow> state) list \<Rightarrow> state" where
  "wakeups s envs = foldl (\<lambda>t env. env t) s envs"

text \<open>
  The lock discipline on a thread's events: every write of \<^verbatim>\<open>processesWaitingOnPID[pid]\<close>
  happens between \<^verbatim>\<open>Acquire\<close> and \<^verbatim>\<open>Release\<close> of the lock of the slot \<open>pid\<close>.
  \<^verbatim>\<open>Wait\<close> gives the lock up while the thread is suspended and returns with it held.
\<close>

fun count_guarded :: "int list \<Rightarrow> event list \<Rightarrow> bool" where
  "count_guarded held [] = True"
| "count_guarded held (EvAcquire p # evs) = count_guarded (p # held) evs"
| "count_guarded held (EvRelease p # evs) = count_guarded (removeAll p held) evs"
| "count_guarded held (EvCount p # evs) = (p \<in> set held \<and> count_guarded held evs)"
| "count_guarded held (EvWait p # evs) = count_guarded held evs"
| "count_guarded held (EvBroadcast p # evs) = count_guarded held evs"
| "count_guarded held (EvStatus p # evs) = count_guarded held evs"

text \<open>The scenario of the exhaustion test: \<open>n\<close> calls of \<^verbatim>\<open>getPID\<close> in a row.\<close>

fun allocate_times :: "nat \<Rightarrow> state \<Rightarrow> fault + state" where
  "allocate_times 0 s = Inr s"
| "allocate_times (Suc n) s =
     bind_fault (allocate_times n s) (\<lambda>t.
     bind_fault (getPID t) (\<lambda>(p, t', evs). Inr t'))"

subsection \<open>Example states\<close>

definition ex_cfg :: config where
  "ex_cfg = \<lparr> MAX_PROCESSES = 2, P_BLOCKED = 3, P_RUNNING = 2 \<rparr>"

text \<open>A new manager whose two count cells hold 7 and whose PCBs all have status \<open>v\<close>.\<close>

definition ex_new :: "int \<Rightarrow> state" where
  "ex_new v = ProcessManager ex_cfg (\<lambda>_. 7) (\<lambda>_. 0) (\<lambda>_. v)"

text \<open>After the first \<^verbatim>\<open>getPID\<close>, which returns 0.\<close>

definition ex_one :: "int \<Rightarrow> state" where
  "ex_one v = (ex_new v)\<lparr>processesBitMap := [True, False], processesWaitingOnPID := [1, 7]\<rparr>"

text \<open>After \<^verbatim>\<open>addProcess(pcb, 0)\<close> with the PCB at address \<open>a\<close>.\<close>

definition ex_reg :: "int \<Rightarrow> addr \<Rightarrow> state" where
  "ex_reg v a = (ex_one v)\<lparr>pcbList := [Some a, None]\<rparr>"

text \<open>
  \<open>unfinished s pid\<close>: \<^verbatim>\<open>getStatus(pid)\<close> returns a value other than \<open>-1\<close>, the
  condition of the loop of \<^verbatim>\<open>join\<close>.
\<close>

definition unfinished :: "state \<Rightarrow> int \<Rightarrow> bool" where
  "unfinished s pid \<longleftrightarrow> (case getStatus s pid of Inl _ \<Rightarrow> False | Inr v \<Rightarrow> v \<noteq> - 1)"

text \<open>What an operation of another thread does to the state while a joiner is suspended.\<close>

definition other_thread :: "(state \<Rightarrow> fault + (state \<times> event list)) \<Rightarrow> state \<Rightarrow> state" where
  "other_thread op s = (case op s of Inl _ \<Rightarrow> s | Inr (s', _) \<Rightarrow> s')"

text \<open>The manager after \<^verbatim>\<open>MAX_PROCESSES\<close> allocations: every bit set, every count 1.\<close>

definition all_allocated :: "config \<Rightarrow> (nat \<Rightarrow> cint) \<Rightarrow> (nat \<Rightarrow> int) \<Rightarrow> (addr \<Rightarrow> int) \<Rightarrow> state" where
  "all_allocated cfg w0 st0 h =
     (ProcessManager cfg w0 st0 h)
       \<lparr>processesBitMap := replicate (MAX_PROCESSES cfg) True,
        processesWaitingOnPID := replicate (MAX_PROCESSES cfg) 1\<rparr>"

text \<open>Both PIDs allocated.\<close>

definition ex_two :: state where
  "ex_two = (ex_new 0)\<lparr>processesBitMap := [True, True], processesWaitingOnPID := [1, 1]\<rparr>"

text \<open>
  \<open>ex_two\<close> after the first part of \<^verbatim>\<open>join(1)\<close>, called by the process whose PCB is at
  address 4.
\<close>

definition ex_entered :: state where
  "ex_entered = ex_two\<lparr>lockList := [None, Some (Lock '''')],
                       conditionList := [None, Some (Condition '''')],
                       processesWaitingOnPID := [1, 2],
                       pcb_status := (\<lambda>_. 0)(4 := 3)\<rparr>"

text \<open>A wakeup with nothing changed, then two calls of \<^verbatim>\<open>clearPID(1)\<close> by other threads.\<close>

definition ex_envs :: "(state \<Rightarrow> state) list" where
  "ex_envs = [\<lambda>s. s, other_thread (\<lambda>s. clearPID s 1), other_thread (\<lambda>s. clearPID s 1)]"

text \<open>\<open>ex_one 0\<close> after \<^verbatim>\<open>clearPID(0)\<close>.\<close>

definition ex_released :: state where
  "ex_released = (ex_one 0)\<lparr>processesWaitingOnPID := [0, 7], processesBitMap := [False, False]\<rparr>"

text \<open>\<open>ex_reg 5 4\<close> after some process has joined PID 0: its lock and condition exist.\<close>

definition ex_joined :: state where
  "ex_joined = (ex_reg 5 4)\<lparr>lockList := [Some (Lock ''''), None],
                              conditionList := [Some (Condition ''''), None]\<rparr>"

text \<open>
  \<open>loop_exit s1 pid envs k\<close>: a \<^verbatim>\<open>join(pid)\<close> that has reached the loop in the state \<open>s1\<close>
  leaves it at the test after \<open>k\<close> wakeups, in the state \<open>wakeups s1 (take k envs)\<close>. For
  PID 0 the loop is skipped.
\<close>

definition loop_exit :: "state \<Rightarrow> int \<Rightarrow> (state \<Rightarrow> state) list \<Rightarrow> nat \<Rightarrow> bool" where
  "loop_exit s1 pid envs k \<longleftrightarrow>
     (if pid = 0 then k = 0
      else k \<le> length envs \<and>
           getStatus (wakeups s1 (take k envs)) pid = Inr (- 1) \<and>
           (\<forall>j<k. unfinished (wakeups s1 (take j envs)) pid))"

text \<open>
  Both PIDs allocated, PID 1 registered with the PCB at address 6, every PCB with
  status \<open>-1\<close>.
\<close>

definition ex_live :: state where
  "ex_live = (ex_new (- 1))\<lparr>processesBitMap := [True, True], processesWaitingOnPID := [1, 1],
                             pcbList := [None, Some 6]\<rparr>"

text \<open>\<open>ex_live\<close> after the first part of \<^verbatim>\<open>join(1)\<close>, called by the process with the PCB at 4.\<close>

definition ex_live_entered :: state where
  "ex_live_entered = ex_live\<lparr>lockList := [None, Some (Lock '''')],
                       conditionList := [None, Some (Condition '''')],
                       processesWaitingOnPID := [1, 2],
                       pcb_status := (\<lambda>_. - 1)(4 := 3)\<rparr>"

text \<open>While the joiner is suspended: a \<^verbatim>\<open>clearPID(1)\<close>, then a \<^verbatim>\<open>broadcast(1)\<close>.\<close>

definition ex_live_envs :: "(state \<Rightarrow> state) list" where
  "ex_live_envs = [other_thread (\<lambda>s. clearPID s 1), other_thread (\<lambda>s. broadcast s 1)]"

text \<open>The state in which the joiner of \<open>ex_live\<close> leaves the loop.\<close>

definition ex_live_exit :: state where
  "ex_live_exit = ex_live_entered\<lparr>processesWaitingOnPID := [1, 1], pcbStatuses := [0, - 1]\<rparr>"

text \<open>A new manager whose count cells hold \<^verbatim>\<open>INT_MIN\<close>.\<close>

definition ex_min :: state where
  "ex_min = ProcessManager ex_cfg (\<lambda>_. - 2147483648) (\<lambda>_. 0) (\<lambda>_. 0)"

section \<open>Basic facts\<close>

lemmas arr_defs = arr_get_def arr_set_def arr_add_def in_range_def bind_fault_def Test_def Clear_def

lemma bind_fault_Inr: "bind_fault (Inr x) f = f x"
  by (simp add: bind_fault_def)

lemma bind_fault_Inl: "bind_fault (Inl e) f = Inl e"
  by (simp add: bind_fault_def)

lemma bind_fault_eq_Inr: "bind_fault m f = Inr y \<longleftrightarrow> (\<exists>x. m = Inr x \<and> f x = Inr y)"
  by (cases m) (simp_all add: bind_fault_def)

lemma ex_new_fields:
  "processesBitMap (ex_new v) = [False, False]"
  "pcbList (ex_new v) = [None, None]"
  "conditionList (ex_new v) = [None, None]"
  "lockList (ex_new v) = [None, None]"
  "processesWaitingOnPID (ex_new v) = [7, 7]"
  "pcbStatuses (ex_new v) = [0, 0]"
  "pcb_status (ex_new v) = (\<lambda>_. v)"
  by (simp_all add: ex_new_def ProcessManager_def ex_cfg_def upt_rec numeral_2_eq_2)

lemma getPID_ex_new: "getPID (ex_new v) = Inr (0, ex_one v, [EvCount 0, EvCount 0])"
  by (simp add: getPID_def Find_def ex_one_def ex_new_fields arr_defs)

lemma addProcess_ex_one: "addProcess (ex_one v) (Some a) 0 = Inr (ex_reg v a, [])"
  by (simp add: addProcess_def ex_reg_def ex_one_def ex_new_fields arr_defs)

subsection \<open>The example states\<close>

lemma ex_one_fields:
  "processesBitMap (ex_one v) = [True, False]"
  "pcbList (ex_one v) = [None, None]"
  "conditionList (ex_one v) = [None, None]"
  "lockList (ex_one v) = [None, None]"
  "processesWaitingOnPID (ex_one v) = [1, 7]"
  "pcbStatuses (ex_one v) = [0, 0]"
  "pcb_status (ex_one v) = (\<lambda>_. v)"
  by (simp_all add: ex_one_def ex_new_fields)

lemma ex_two_fields:
  "processesBitMap ex_two = [True, True]"
  "pcbList ex_two = [None, None]"
  "conditionList ex_two = [None, None]"
  "lockList ex_two = [None, None]"
  "processesWaitingOnPID ex_two = [1, 1]"
  "pcbStatuses ex_two = [0, 0]"
  "pcb_status ex_two = (\<lambda>_. 0)"
  by (simp_all add: ex_two_def ex_new_fields)

lemma clearPID_ex_one: "clearPID (ex_one 0) 0 = Inr (ex_released, [EvCount 0])"
  by (simp add: clearPID_def ex_released_def ex_one_fields arr_defs)

lemma join_enter_ex_two: "join_enter ex_cfg ex_two 4 1 = Inr (ex_entered, [EvAcquire 1, EvCount 1])"
  by (simp add: join_enter_def getStatus_def ex_entered_def ex_two_fields ex_cfg_def arr_defs Let_def)

lemma ex_entered_fields:
  "processesBitMap ex_entered = [True, True]"
  "processesWaitingOnPID ex_entered = [1, 2]"
  "pcbStatuses ex_entered = [0, 0]"
  by (simp_all add: ex_entered_def ex_two_fields)

lemma ex_live_fields:
  "processesBitMap ex_live = [True, True]"
  "pcbList ex_live = [None, Some 6]"
  "conditionList ex_live = [None, None]"
  "lockList ex_live = [None, None]"
  "processesWaitingOnPID ex_live = [1, 1]"
  "pcbStatuses ex_live = [0, 0]"
  "pcb_status ex_live = (\<lambda>_. - 1)"
  by (simp_all add: ex_live_def ex_new_fields)

lemma ex_live_entered_fields:
  "processesBitMap ex_live_entered = [True, True]"
  "pcbList ex_live_entered = [None, Some 6]"
  "conditionList ex_live_entered = [None, Some (Condition '''')]"
  "lockList ex_live_entered = [None, Some (Lock '''')]"
  "processesWaitingOnPID ex_live_entered = [1, 2]"
  "pcbStatuses ex_live_entered = [0, 0]"
  "pcb_status ex_live_entered 6 = - 1"
  by (simp_all add: ex_live_entered_def ex_live_fields)

lemma well_formed_ex_live: "well_formed ex_cfg ex_live"
  by (simp add: well_formed_def ex_live_fields ex_cfg_def)

lemma join_enter_ex_live:
  "join_enter ex_cfg ex_live 4 1 = Inr (ex_live_entered, [EvAcquire 1, EvCount 1])"
  by (simp add: join_enter_def getStatus_def ex_live_entered_def ex_live_fields ex_cfg_def
      arr_defs Let_def)

lemma wakeups_ex_live_1:
  "wakeups ex_live_entered (take (Suc 0) ex_live_envs) =
     ex_live_entered\<lparr>processesWaitingOnPID := [1, 1]\<rparr>"
  by (simp add: wakeups_def ex_live_envs_def other_thread_def clearPID_def
      ex_live_entered_fields arr_defs)

lemma wakeups_ex_live_2: "wakeups ex_live_entered (take 2 ex_live_envs) = ex_live_exit"
  by (simp add: wakeups_def ex_live_envs_def other_thread_def clearPID_def broadcast_def
      getStatus_def ex_live_exit_def ex_live_entered_fields arr_defs Let_def)

lemma ex_live_exit_fields:
  "processesBitMap ex_live_exit = [True, True]"
  "processesWaitingOnPID ex_live_exit = [1, 1]"
  "pcbStatuses ex_live_exit = [0, - 1]"
  "length (pcbList ex_live_exit) = 2" "length (lockList ex_live_exit) = 2"
  "length (conditionList ex_live_exit) = 2"
  by (simp_all add: ex_live_exit_def ex_live_entered_fields)

lemma ex_min_fields:
  "processesBitMap ex_min = [False, False]"
  "processesWaitingOnPID ex_min = [- 2147483648, - 2147483648]"
  "pcbList ex_min = [None, None]" "lockList ex_min = [None, None]"
  "conditionList ex_min = [None, None]" "pcbStatuses ex_min = [0, 0]"
  "pcb_status ex_min = (\<lambda>_. 0)"
  by (simp_all add: ex_min_def ProcessManager_def ex_cfg_def upt_rec numeral_2_eq_2)

text \<open>At \<^verbatim>\<open>INT_MAX\<close> the increment of \<^verbatim>\<open>join\<close> wraps around to \<^verbatim>\<open>INT_MIN\<close>.\<close>

lemma join_enter_wraps:
  "join_enter ex_cfg (ex_min\<lparr>processesWaitingOnPID := [2147483647, 0]\<rparr>) 4 0 =
     Inr (ex_min\<lparr>lockList := [Some (Lock ''''), None],
                 conditionList := [Some (Condition ''''), None],
                 processesWaitingOnPID := [- 2147483648, 0],
                 pcb_status := (\<lambda>_. 0)(4 := 3)\<rparr>,
          [EvAcquire 0, EvCount 0])"
  by (simp add: join_enter_def getStatus_def ex_min_fields ex_cfg_def arr_defs Let_def)

section \<open>The operations on well-formed states\<close>

lemma firstClear_Some:
  "firstClear bm = Some i \<Longrightarrow> i < length bm \<and> \<not> bm ! i \<and> (\<forall>j<i. bm ! j)"
proof (induction bm arbitrary: i)
  case Nil
  then show ?case by simp
next
  case (Cons b bs)
  show ?case
  proof (cases b)
    case False
    with Cons.prems show ?thesis by simp
  next
    case True
    with Cons.prems obtain k where k: "firstClear bs = Some k" "i = Suc k" by auto
    from Cons.IH [OF k(1)] True k(2) show ?thesis by (auto simp add: nth_Cons')
  qed
qed

lemma firstClear_None: "firstClear bm = None \<longleftrightarrow> (\<forall>b\<in>set bm. b)"
  by (induction bm) auto

lemma firstClear_prefix: "firstClear (replicate k True @ False # bs) = Some k"
  by (induction k) simp_all

lemma getPID_free:
  assumes "well_formed cfg s" "firstClear (processesBitMap s) = Some i"
  shows "getPID s =
           Inr (int i,
                s\<lparr>processesBitMap := (processesBitMap s)[i := True],
                  processesWaitingOnPID := (processesWaitingOnPID s)[i := 1]\<rparr>,
                [EvCount (int i), EvCount (int i)])"
proof -
  from firstClear_Some [OF assms(2)] assms(1) have "i < length (processesWaitingOnPID s)"
    by (simp add: well_formed_def)
  with assms(2) show ?thesis by (simp add: getPID_def Find_def arr_defs)
qed

lemma getPID_none_free:
  assumes "firstClear (processesBitMap s) = None"
  shows "getPID s = Inl OutOfBounds"
  using assms by (simp add: getPID_def Find_def arr_defs)

lemma getPID_Inr:
  assumes "getPID s = Inr (p, s', evs)"
  shows "\<exists>i. firstClear (processesBitMap s) = Some i \<and> p = int i \<and> i < length (processesWaitingOnPID s) \<and>
             s' = s\<lparr>processesBitMap := (processesBitMap s)[i := True],
                    processesWaitingOnPID := (processesWaitingOnPID s)[i := 1]\<rparr> \<and>
             evs = [EvCount p, EvCount p]"
proof (cases "firstClear (processesBitMap s)")
  case None
  with assms show ?thesis by (simp add: getPID_none_free)
next
  case (Some i)
  with assms show ?thesis
    by (auto simp add: getPID_def Find_def arr_defs split: if_splits)
qed

lemma clearPID_wf:
  assumes "well_formed cfg s" "0 \<le> pid" "pid < int (MAX_PROCESSES cfg)"
  shows "clearPID s pid =
     Inr (s\<lparr>processesWaitingOnPID := (processesWaitingOnPID s)[nat pid := waiterCount s pid - 1],
            processesBitMap := (if waiterCount s pid = 1 then (processesBitMap s)[nat pid := False]
                                else processesBitMap s)\<rparr>,
          [EvCount pid])"
  using assms
  by (simp add: clearPID_def well_formed_def waiterCount_def arr_defs)

lemma clearPID_Inr_range:
  "clearPID s pid = Inr x \<Longrightarrow> 0 \<le> pid \<and> pid < int (length (processesWaitingOnPID s))"
  by (auto simp add: clearPID_def arr_defs split: if_splits)

lemma join_enter_wf:
  assumes "well_formed cfg s" "0 \<le> pid" "pid < int (MAX_PROCESSES cfg)"
  shows "join_enter cfg s cur pid =
     Inr (s\<lparr>lockList := (if lockList s ! nat pid = None
                           then (lockList s)[nat pid := Some (Lock '''')] else lockList s),
            conditionList := (if conditionList s ! nat pid = None
                           then (conditionList s)[nat pid := Some (Condition '''')] else conditionList s),
            processesWaitingOnPID := (processesWaitingOnPID s)[nat pid := waiterCount s pid + 1],
            pcb_status := (pcb_status s)(cur := P_BLOCKED cfg)\<rparr>,
          [EvAcquire pid, EvCount pid])"
  using assms
  by (simp add: join_enter_def getStatus_def well_formed_def waiterCount_def arr_defs Let_def)

lemma join_leave_wf:
  assumes "well_formed cfg s" "0 \<le> pid" "pid < int (MAX_PROCESSES cfg)"
  shows "join_leave cfg s cur pid =
     Inr (s\<lparr>pcb_status := (pcb_status s)(cur := P_RUNNING cfg),
            processesWaitingOnPID := (processesWaitingOnPID s)[nat pid := waiterCount s pid - 1],
            processesBitMap := (if waiterCount s pid = 1 then (processesBitMap s)[nat pid := False]
                                else processesBitMap s)\<rparr>,
          [EvCount pid, EvRelease pid])"
  using assms
  by (simp add: join_leave_def getStatus_def well_formed_def waiterCount_def arr_defs Let_def)

lemma join_enter_Inr_range:
  "join_enter cfg s cur pid = Inr x \<Longrightarrow> 0 \<le> pid \<and> pid < int (length (lockList s))"
  by (auto simp add: join_enter_def arr_defs split: if_splits)

lemma join_leave_Inr_range:
  "join_leave cfg s cur pid = Inr x \<Longrightarrow> 0 \<le> pid \<and> pid < int (length (processesWaitingOnPID s))"
  by (auto simp add: join_leave_def getStatus_def Let_def arr_defs split: if_splits)

lemma join_enter_events:
  "join_enter cfg s cur pid = Inr (s1, evs1) \<Longrightarrow> evs1 = [EvAcquire pid, EvCount pid]"
  unfolding join_enter_def by (auto simp add: bind_fault_eq_Inr Let_def)

lemma join_leave_events:
  "join_leave cfg s cur pid = Inr (s', evs) \<Longrightarrow> evs = [EvCount pid, EvRelease pid]"
  unfolding join_leave_def by (auto simp add: bind_fault_eq_Inr Let_def split: if_splits)

lemma broadcast_Inr:
  assumes "broadcast s pid = Inr (s', evs)"
  shows "\<exists>a. 0 \<le> pid \<and> pid < int (length (pcbList s)) \<and> pcbList s ! nat pid = Some a \<and>
             s' = s\<lparr>pcbStatuses := (pcbStatuses s)[nat pid := pcb_status s a]\<rparr>"
  using assms
  by (auto simp add: broadcast_def Let_def arr_defs split: if_splits option.splits sum.splits)

lemma broadcast_events:
  assumes "broadcast s pid = Inr (s', evs)"
  shows "evs = EvStatus pid # (if conditionList s ! nat pid = None then [] else [EvBroadcast pid])"
  using assms
  by (auto simp add: broadcast_def Let_def arr_defs split: if_splits option.splits sum.splits)

lemma addProcess_Inr:
  assumes "addProcess s pcb pid = Inr (s', evs)"
  shows "s' = s\<lparr>pcbList := (pcbList s)[nat pid := pcb]\<rparr>"
  using assms by (auto simp add: addProcess_def arr_defs split: if_splits)

section \<open>The wait loop\<close>

lemma wakeups_Nil: "wakeups s [] = s"
  by (simp add: wakeups_def)

lemma wakeups_Cons: "wakeups s (env # envs) = wakeups (env s) envs"
  by (simp add: wakeups_def)

lemma unfinished_iff: "unfinished s pid \<longleftrightarrow> (\<exists>v. getStatus s pid = Inr v \<and> v \<noteq> - 1)"
  by (cases "getStatus s pid") (simp_all add: unfinished_def)

lemma wait_loop_finished:
  "getStatus s pid = Inr (- 1) \<Longrightarrow> wait_loop s pid envs = Inr (Returned s, [])"
  by (cases envs) (simp_all add: bind_fault_def)

declare wait_loop.simps [simp del]

lemma wait_loop_Nil_cases:
  "wait_loop s pid [] = Inr (r, evs) \<Longrightarrow>
   (getStatus s pid = Inr (- 1) \<and> r = Returned s \<and> evs = []) \<or>
   (unfinished s pid \<and> r = Suspended s \<and> evs = [EvWait pid])"
  by (cases "getStatus s pid")
     (auto simp add: bind_fault_def unfinished_iff wait_loop.simps split: if_splits)

lemma wait_loop_unfinished_Nil:
  "unfinished s pid \<Longrightarrow> wait_loop s pid [] = Inr (Suspended s, [EvWait pid])"
  by (auto simp add: unfinished_iff bind_fault_def wait_loop.simps)

lemma wait_loop_unfinished_Cons:
  "unfinished s pid \<Longrightarrow>
   wait_loop s pid (env # envs) =
     bind_fault (wait_loop (env s) pid envs) (\<lambda>(r, evs). Inr (r, EvWait pid # evs))"
  by (auto simp add: unfinished_iff bind_fault_def wait_loop.simps)

lemma wait_loop_fault:
  "getStatus s pid = Inl e \<Longrightarrow> wait_loop s pid envs = Inl e"
  by (cases envs) (simp_all add: bind_fault_def wait_loop.simps)

lemma wait_loop_Returned:
  "wait_loop s pid envs = Inr (Returned s', evs) \<Longrightarrow>
   \<exists>k\<le>length envs. s' = wakeups s (take k envs) \<and> getStatus s' pid = Inr (- 1) \<and>
      (\<forall>j<k. unfinished (wakeups s (take j envs)) pid) \<and> evs = replicate k (EvWait pid)"
proof (induction envs arbitrary: s evs)
  case Nil
  from wait_loop_Nil_cases [OF Nil] show ?case by (simp add: wakeups_Nil)
next
  case (Cons env envs)
  show ?case
  proof (cases "getStatus s pid")
    case (Inl e)
    with Cons.prems show ?thesis by (simp add: wait_loop_fault)
  next
    case (Inr v)
    show ?thesis
    proof (cases "v = - 1")
      case True
      with Inr Cons.prems have "s' = s" "evs = []" by (simp_all add: wait_loop_finished)
      with Inr True show ?thesis by (intro exI [of _ 0]) (simp add: wakeups_Nil)
    next
      case False
      with Inr have u: "unfinished s pid" by (simp add: unfinished_iff)
      from Cons.prems obtain evs' where
        w: "wait_loop (env s) pid envs = Inr (Returned s', evs')" and e: "evs = EvWait pid # evs'"
        by (auto simp add: wait_loop_unfinished_Cons [OF u] bind_fault_eq_Inr)
      from Cons.IH [OF w] obtain k where k: "k \<le> length envs"
        "s' = wakeups (env s) (take k envs)" "getStatus s' pid = Inr (- 1)"
        "\<forall>j<k. unfinished (wakeups (env s) (take j envs)) pid" "evs' = replicate k (EvWait pid)"
        by blast
      have "\<forall>j<Suc k. unfinished (wakeups s (take j (env # envs))) pid"
      proof (intro allI impI)
        fix j assume "j < Suc k"
        then show "unfinished (wakeups s (take j (env # envs))) pid"
          using u k(4) by (cases j) (simp_all add: wakeups_Nil wakeups_Cons)
      qed
      with k e show ?thesis
        by (intro exI [of _ "Suc k"]) (simp add: wakeups_Cons)
    qed
  qed
qed

lemma wait_loop_all_unfinished:
  "(\<forall>j\<le>length envs. unfinished (wakeups s (take j envs)) pid) \<Longrightarrow>
   wait_loop s pid envs = Inr (Suspended (wakeups s envs), replicate (Suc (length envs)) (EvWait pid))"
proof (induction envs arbitrary: s)
  case Nil
  then show ?case by (simp add: wait_loop_unfinished_Nil wakeups_Nil)
next
  case (Cons env envs)
  from Cons.prems have u: "unfinished s pid"
    by (auto simp add: wakeups_Nil dest: spec [of _ 0])
  have "\<forall>j\<le>length envs. unfinished (wakeups (env s) (take j envs)) pid"
  proof (intro allI impI)
    fix j assume "j \<le> length envs"
    with Cons.prems have "unfinished (wakeups s (take (Suc j) (env # envs))) pid"
      by (auto simp del: take_Suc_Cons)
    then show "unfinished (wakeups (env s) (take j envs)) pid" by (simp add: wakeups_Cons)
  qed
  from Cons.IH [OF this] show ?case
    by (simp add: wait_loop_unfinished_Cons [OF u] bind_fault_Inr wakeups_Cons)
qed

lemma wait_loop_Suspended:
  "wait_loop s pid envs = Inr (Suspended s', evs) \<Longrightarrow>
   s' = wakeups s envs \<and> (\<forall>j\<le>length envs. unfinished (wakeups s (take j envs)) pid) \<and>
   evs = replicate (Suc (length envs)) (EvWait pid)"
proof (induction envs arbitrary: s evs)
  case Nil
  from wait_loop_Nil_cases [OF Nil] show ?case by (simp add: wakeups_Nil)
next
  case (Cons env envs)
  show ?case
  proof (cases "getStatus s pid")
    case (Inl e)
    with Cons.prems show ?thesis by (simp add: wait_loop_fault)
  next
    case (Inr v)
    show ?thesis
    proof (cases "v = - 1")
      case True
      with Inr Cons.prems show ?thesis by (simp add: wait_loop_finished)
    next
      case False
      with Inr have u: "unfinished s pid" by (simp add: unfinished_iff)
      from Cons.prems obtain evs' where
        w: "wait_loop (env s) pid envs = Inr (Suspended s', evs')" and e: "evs = EvWait pid # evs'"
        by (auto simp add: wait_loop_unfinished_Cons [OF u] bind_fault_eq_Inr)
      note ih = Cons.IH [OF w]
      have "\<forall>j\<le>length (env # envs). unfinished (wakeups s (take j (env # envs))) pid"
      proof (intro allI impI)
        fix j assume "j \<le> length (env # envs)"
        then show "unfinished (wakeups s (take j (env # envs))) pid"
          using u ih by (cases j) (simp_all add: wakeups_Nil wakeups_Cons)
      qed
      with ih e show ?thesis by (simp add: wakeups_Cons)
    qed
  qed
qed

lemma wait_loop_events:
  "wait_loop s pid envs = Inr (r, evs) \<Longrightarrow> \<exists>k. evs = replicate k (EvWait pid)"
  by (cases r) (auto dest: wait_loop_Returned wait_loop_Suspended)

lemma join_Inr:
  assumes "join cfg s cur pid envs = Inr (r, evs)"
  obtains s1 evs1 r2 evs2 where
    "join_enter cfg s cur pid = Inr (s1, evs1)"
    "(if pid \<noteq> 0 then wait_loop s1 pid envs else Inr (Returned s1, [])) = Inr (r2, evs2)"
    "(case r2 of
        Suspended s2 \<Rightarrow> Inr (Suspended s2, evs1 @ evs2)
      | Returned s2 \<Rightarrow>
          bind_fault (join_leave cfg s2 cur pid) (\<lambda>(s3, evs3). Inr (Returned s3, evs1 @ evs2 @ evs3)))
     = Inr (r, evs)"
proof -
  from assms obtain x where x: "join_enter cfg s cur pid = Inr x"
    and 1: "(case x of (s1, evs1) \<Rightarrow>
       bind_fault (if pid \<noteq> 0 then wait_loop s1 pid envs else Inr (Returned s1, [])) (\<lambda>(r, evs2).
         case r of
           Suspended s2 \<Rightarrow> Inr (Suspended s2, evs1 @ evs2)
         | Returned s2 \<Rightarrow>
             bind_fault (join_leave cfg s2 cur pid) (\<lambda>(s3, evs3).
               Inr (Returned s3, evs1 @ evs2 @ evs3)))) = Inr (r, evs)"
    unfolding join_def bind_fault_eq_Inr by blast
  obtain s1 evs1 where x': "x = (s1, evs1)" by (cases x)
  from 1 x' obtain y where
    y: "(if pid \<noteq> 0 then wait_loop s1 pid envs else Inr (Returned s1, [])) = Inr y"
    and 2: "(case y of (r, evs2) \<Rightarrow>
         case r of
           Suspended s2 \<Rightarrow> Inr (Suspended s2, evs1 @ evs2)
         | Returned s2 \<Rightarrow>
             bind_fault (join_leave cfg s2 cur pid) (\<lambda>(s3, evs3).
               Inr (Returned s3, evs1 @ evs2 @ evs3))) = Inr (r, evs)"
    by (auto simp add: bind_fault_eq_Inr)
  obtain r2 evs2 where y': "y = (r2, evs2)" by (cases y)
  from that [of s1 evs1 r2 evs2] x x' y y' 2 show thesis by simp
qed

lemma join_Returned:
  assumes "join cfg s cur pid envs = Inr (Returned s', evs)"
  shows "\<exists>s1 evs1 s2 evs2 evs3.
           join_enter cfg s cur pid = Inr (s1, evs1) \<and>
           (if pid \<noteq> 0 then wait_loop s1 pid envs else Inr (Returned s1, [])) = Inr (Returned s2, evs2) \<and>
           join_leave cfg s2 cur pid = Inr (s', evs3) \<and> evs = evs1 @ evs2 @ evs3"
proof -
  from assms obtain s1 evs1 r2 evs2 where
    e: "join_enter cfg s cur pid = Inr (s1, evs1)" and
    w: "(if pid \<noteq> 0 then wait_loop s1 pid envs else Inr (Returned s1, [])) = Inr (r2, evs2)" and
    l: "(case r2 of
        Suspended s2 \<Rightarrow> Inr (Suspended s2, evs1 @ evs2)
      | Returned s2 \<Rightarrow>
          bind_fault (join_leave cfg s2 cur pid) (\<lambda>(s3, evs3). Inr (Returned s3, evs1 @ evs2 @ evs3)))
     = Inr (Returned s', evs)"
    by (rule join_Inr)
  show ?thesis
  proof (cases r2)
    case (Suspended s2)
    with l show ?thesis by simp
  next
    case (Returned s2)
    with l obtain evs3 where "join_leave cfg s2 cur pid = Inr (s', evs3)" "evs = evs1 @ evs2 @ evs3"
      by (auto simp add: bind_fault_eq_Inr)
    with e w Returned show ?thesis by blast
  qed
qed

lemma join_Suspended:
  assumes "join cfg s cur pid envs = Inr (Suspended s', evs)"
  shows "\<exists>s1 evs1 evs2.
           join_enter cfg s cur pid = Inr (s1, evs1) \<and>
           (if pid \<noteq> 0 then wait_loop s1 pid envs else Inr (Returned s1, [])) = Inr (Suspended s', evs2) \<and>
           evs = evs1 @ evs2"
proof -
  from assms obtain s1 evs1 r2 evs2 where
    e: "join_enter cfg s cur pid = Inr (s1, evs1)" and
    w: "(if pid \<noteq> 0 then wait_loop s1 pid envs else Inr (Returned s1, [])) = Inr (r2, evs2)" and
    l: "(case r2 of
        Suspended s2 \<Rightarrow> Inr (Suspended s2, evs1 @ evs2)
      | Returned s2 \<Rightarrow>
          bind_fault (join_leave cfg s2 cur pid) (\<lambda>(s3, evs3). Inr (Returned s3, evs1 @ evs2 @ evs3)))
     = Inr (Suspended s', evs)"
    by (rule join_Inr)
  show ?thesis
  proof (cases r2)
    case (Suspended s2)
    with l e w show ?thesis by auto
  next
    case (Returned s2)
    with l show ?thesis by (auto simp add: bind_fault_eq_Inr)
  qed
qed

lemma join_leave_status:
  assumes "join_leave cfg s cur pid = Inr (s', evs)" "getStatus s pid = Inr (- 1)"
  shows "getStatus s' pid = Inr (- 1)"
  using assms unfolding join_leave_def getStatus_def
  by (auto simp add: bind_fault_eq_Inr Let_def arr_get_def arr_set_def arr_add_def in_range_def Test_def Clear_def
      split: if_splits)

lemma join_events:
  assumes "join cfg s cur pid envs = Inr (r, evs)"
  shows "\<exists>k. evs = [EvAcquire pid, EvCount pid] @ replicate k (EvWait pid) @
                    (case r of Returned _ \<Rightarrow> [EvCount pid, EvRelease pid] | Suspended _ \<Rightarrow> [])"
proof (cases r)
  case (Returned s')
  with join_Returned [of cfg s cur pid envs s' evs] assms obtain s1 evs1 s2 evs2 evs3 where
    j: "join_enter cfg s cur pid = Inr (s1, evs1)"
    "(if pid \<noteq> 0 then wait_loop s1 pid envs else Inr (Returned s1, [])) = Inr (Returned s2, evs2)"
    "join_leave cfg s2 cur pid = Inr (s', evs3)" "evs = evs1 @ evs2 @ evs3"
    by blast
  from j(2) obtain k where "evs2 = replicate k (EvWait pid)"
    by (cases "pid = 0") (auto dest: wait_loop_events intro: exI [of _ 0])
  with j(4) join_enter_events [OF j(1)] join_leave_events [OF j(3)] Returned
  show ?thesis by auto
next
  case (Suspended s')
  with join_Suspended [of cfg s cur pid envs s' evs] assms obtain s1 evs1 evs2 where
    j: "join_enter cfg s cur pid = Inr (s1, evs1)"
    "(if pid \<noteq> 0 then wait_loop s1 pid envs else Inr (Returned s1, [])) = Inr (Suspended s', evs2)"
    "evs = evs1 @ evs2"
    by blast
  from j(2) obtain k where "evs2 = replicate k (EvWait pid)"
    by (cases "pid = 0") (auto dest: wait_loop_events)
  with j(3) join_enter_events [OF j(1)] Suspended show ?thesis by auto
qed

lemma wait_loop_exit:
  assumes "k \<le> length envs" "getStatus (wakeups s (take k envs)) pid = Inr (- 1)"
    "\<forall>j<k. unfinished (wakeups s (take j envs)) pid"
  shows "wait_loop s pid envs = Inr (Returned (wakeups s (take k envs)), replicate k (EvWait pid))"
  using assms
proof (induction envs arbitrary: s k)
  case Nil
  then show ?case by (simp add: wait_loop_finished wakeups_Nil)
next
  case (Cons env envs)
  show ?case
  proof (cases k)
    case 0
    with Cons.prems show ?thesis by (simp add: wait_loop_finished wakeups_Nil)
  next
    case (Suc n)
    with Cons.prems have u: "unfinished s pid"
      by (auto simp add: wakeups_Nil dest: spec [of _ 0])
    from Cons.prems Suc have n: "n \<le> length envs"
      "getStatus (wakeups (env s) (take n envs)) pid = Inr (- 1)"
      by (simp_all add: wakeups_Cons)
    have "\<forall>j<n. unfinished (wakeups (env s) (take j envs)) pid"
    proof (intro allI impI)
      fix j assume "j < n"
      with Cons.prems(3) Suc have "unfinished (wakeups s (take (Suc j) (env # envs))) pid"
        by (auto simp del: take_Suc_Cons)
      then show "unfinished (wakeups (env s) (take j envs)) pid" by (simp add: wakeups_Cons)
    qed
    from Cons.IH [OF n this] Suc show ?thesis
      by (simp add: wait_loop_unfinished_Cons [OF u] bind_fault_Inr wakeups_Cons)
  qed
qed

lemma join_from_exit:
  assumes wf: "well_formed cfg s" and r: "0 \<le> pid" "pid < int (MAX_PROCESSES cfg)"
    and e: "join_enter cfg s cur pid = Inr (s1, evs1)"
    and x: "loop_exit s1 pid envs k" and wft: "well_formed cfg (wakeups s1 (take k envs))"
  shows "\<exists>s'. join cfg s cur pid envs =
                 Inr (Returned s', evs1 @ replicate k (EvWait pid) @ [EvCount pid, EvRelease pid]) \<and>
              join_leave cfg (wakeups s1 (take k envs)) cur pid = Inr (s', [EvCount pid, EvRelease pid])"
proof -
  let ?t = "wakeups s1 (take k envs)"
  have w: "(if pid \<noteq> 0 then wait_loop s1 pid envs else Inr (Returned s1, [])) =
             Inr (Returned ?t, replicate k (EvWait pid))"
  proof (cases "pid = 0")
    case True
    with x show ?thesis by (simp add: loop_exit_def wakeups_Nil)
  next
    case False
    with x have "k \<le> length envs" "getStatus ?t pid = Inr (- 1)"
      "\<forall>j<k. unfinished (wakeups s1 (take j envs)) pid"
      by (simp_all add: loop_exit_def)
    from wait_loop_exit [OF this] False show ?thesis by simp
  qed
  from join_leave_wf [OF wft r, of cur] obtain s' where
    l: "join_leave cfg ?t cur pid = Inr (s', [EvCount pid, EvRelease pid])"
    by blast
  have "join cfg s cur pid envs =
          Inr (Returned s', evs1 @ replicate k (EvWait pid) @ [EvCount pid, EvRelease pid])"
    by (simp add: join_def e w l bind_fault_Inr del: if_split)
  with l show ?thesis by blast
qed

lemma join_to_exit:
  assumes "join cfg s cur pid envs = Inr (Returned s', evs)"
    and e: "join_enter cfg s cur pid = Inr (s1, evs1)"
  shows "\<exists>k. loop_exit s1 pid envs k \<and>
             join_leave cfg (wakeups s1 (take k envs)) cur pid = Inr (s', [EvCount pid, EvRelease pid])"
proof -
  from join_Returned [OF assms(1)] e obtain s2 evs2 evs3 where
    w: "(if pid \<noteq> 0 then wait_loop s1 pid envs else Inr (Returned s1, [])) = Inr (Returned s2, evs2)"
    and l: "join_leave cfg s2 cur pid = Inr (s', evs3)"
    by auto
  note ev = join_leave_events [OF l]
  show ?thesis
  proof (cases "pid = 0")
    case True
    with w l ev show ?thesis
      by (intro exI [of _ 0]) (simp add: loop_exit_def wakeups_Nil)
  next
    case False
    with w have "wait_loop s1 pid envs = Inr (Returned s2, evs2)" by simp
    from wait_loop_Returned [OF this] obtain k where "k \<le> length envs"
      "s2 = wakeups s1 (take k envs)" "getStatus s2 pid = Inr (- 1)"
      "\<forall>j<k. unfinished (wakeups s1 (take j envs)) pid"
      by blast
    with False l ev show ?thesis
      by (intro exI [of _ k]) (simp add: loop_exit_def)
  qed
qed

lemma join_straight_through:
  assumes wf: "well_formed cfg s" and r: "0 \<le> pid" "pid < int (MAX_PROCESSES cfg)"
    and z: "pid = 0 \<or> \<not> processesBitMap s ! nat pid"
  shows "\<exists>s'. join cfg s cur pid envs =
                 Inr (Returned s', [EvAcquire pid, EvCount pid, EvCount pid, EvRelease pid]) \<and>
              processesBitMap s' = (if waiterCount s pid = 0 then (processesBitMap s)[nat pid := False]
                                    else processesBitMap s) \<and>
              processesWaitingOnPID s' = processesWaitingOnPID s \<and>
              pcbStatuses s' = pcbStatuses s \<and>
              pcbList s' = pcbList s"
proof -
  define s1 where "s1 = fst (projr (join_enter cfg s cur pid))"
  have e: "join_enter cfg s cur pid = Inr (s1, [EvAcquire pid, EvCount pid])"
    unfolding s1_def by (simp add: join_enter_wf [OF wf r])
  have s1: "processesBitMap s1 = processesBitMap s"
    "processesWaitingOnPID s1 = (processesWaitingOnPID s)[nat pid := waiterCount s pid + 1]"
    "pcbStatuses s1 = pcbStatuses s" "pcbList s1 = pcbList s"
    unfolding s1_def by (simp_all add: join_enter_wf [OF wf r])
  from wf r have len: "nat pid < length (processesWaitingOnPID s)"
    "nat pid < length (processesBitMap s)"
    by (simp_all add: well_formed_def)
  have wf1: "well_formed cfg s1"
    using wf unfolding s1_def by (simp add: join_enter_wf [OF wf r] well_formed_def)
  have c1: "waiterCount s1 pid = waiterCount s pid + 1"
    using len by (simp add: s1 waiterCount_def)
  have w: "(if pid \<noteq> 0 then wait_loop s1 pid envs else Inr (Returned s1, [])) = Inr (Returned s1, [])"
  proof (cases "pid = 0")
    case True
    then show ?thesis by simp
  next
    case False
    with z have "\<not> processesBitMap s1 ! nat pid" by (simp add: s1)
    with wf1 r have "getStatus s1 pid = Inr (- 1)"
      by (simp add: getStatus_def well_formed_def arr_defs)
    with False show ?thesis by (simp add: wait_loop_finished)
  qed
  define s2 where "s2 = fst (projr (join_leave cfg s1 cur pid))"
  have l: "join_leave cfg s1 cur pid = Inr (s2, [EvCount pid, EvRelease pid])"
    unfolding s2_def by (simp add: join_leave_wf [OF wf1 r])
  have bm: "processesBitMap s2 = (if waiterCount s pid = 0 then (processesBitMap s)[nat pid := False]
                                    else processesBitMap s)"
    unfolding s2_def by (simp add: join_leave_wf [OF wf1 r] c1 s1)
  have c: "processesWaitingOnPID s2 = processesWaitingOnPID s"
    unfolding s2_def using len
    by (simp add: join_leave_wf [OF wf1 r] c1 s1 waiterCount_def)
  have o: "pcbStatuses s2 = pcbStatuses s" "pcbList s2 = pcbList s"
    unfolding s2_def by (simp_all add: join_leave_wf [OF wf1 r] s1)
  have "join cfg s cur pid envs =
          Inr (Returned s2, [EvAcquire pid, EvCount pid, EvCount pid, EvRelease pid])"
    by (simp add: join_def e w l bind_fault_Inr del: if_split)
  with bm c o show ?thesis by blast
qed

section \<open>Invariants of the reachable states\<close>

lemma sint_dec:
  assumes "1 \<le> sint (c::cint)"
  shows "sint (c - 1) = sint c - 1"
proof -
  have "sint c < 2 ^ 31" using sint_lt [of c] by simp
  with assms have "- (2 ^ 31) \<le> sint c - 1" "sint c - 1 < 2 ^ 31" by simp_all
  then have "signed_take_bit 31 (sint c - 1) = sint c - 1"
    by (simp add: signed_take_bit_int_eq_self)
  then show ?thesis by (simp add: sint_word_ariths)
qed

lemma sint_dec_pos:
  assumes "1 \<le> sint (c::cint)" "c \<noteq> 1"
  shows "1 \<le> sint (c - 1)"
proof -
  have "sint c \<noteq> 1"
  proof
    assume "sint c = 1"
    then have "sint c = sint (1::cint)" by simp
    then have "c = 1" by (rule signed_word_eqI)
    with assms(2) show False by simp
  qed
  with assms(1) sint_dec [OF assms(1)] show ?thesis by simp
qed

lemma counts_ok_slot0:
  assumes "length (processesBitMap s') = length (processesBitMap s)"
    "processesBitMap s' ! 0 = processesBitMap s ! 0"
    "processesWaitingOnPID s' ! 0 = processesWaitingOnPID s ! 0"
  shows "counts_ok s' = counts_ok s"
  using assms by (simp add: counts_ok_def member_def waiterCount_def arr_defs)

lemma well_formed_ProcessManager: "well_formed cfg (ProcessManager cfg w0 st0 h)"
  by (simp add: well_formed_def ProcessManager_def)

lemma counts_ok_ProcessManager: "counts_ok (ProcessManager cfg w0 st0 h)"
  by (simp add: counts_ok_def member_def ProcessManager_def arr_defs)

lemma getPID_inv:
  assumes "getPID s = Inr (p, s', evs)" "well_formed cfg s" "counts_ok s"
  shows "well_formed cfg s' \<and> counts_ok s'"
proof -
  from getPID_Inr [OF assms(1)] obtain i where
    i: "i < length (processesWaitingOnPID s)" and
    s': "s' = s\<lparr>processesBitMap := (processesBitMap s)[i := True],
                  processesWaitingOnPID := (processesWaitingOnPID s)[i := 1]\<rparr>"
    by blast
  have "counts_ok s'"
  proof (cases "i = 0")
    case True
    with i show ?thesis by (simp add: s' counts_ok_def waiterCount_def)
  next
    case False
    then have "counts_ok s' = counts_ok s" by (intro counts_ok_slot0) (simp_all add: s')
    with assms(3) show ?thesis by simp
  qed
  with assms(2) show ?thesis by (simp add: s' well_formed_def)
qed

lemma decrement_inv:
  assumes "well_formed cfg s" "counts_ok s" "0 \<le> pid" "pid < int (MAX_PROCESSES cfg)"
    and s': "processesWaitingOnPID s' = (processesWaitingOnPID s)[nat pid := waiterCount s pid - 1]"
      "processesBitMap s' = (if waiterCount s pid = 1 then (processesBitMap s)[nat pid := False]
                                else processesBitMap s)"
  shows "counts_ok s'"
proof (cases "pid = 0")
  case False
  with assms(3) have "nat pid \<noteq> 0" by simp
  then have "counts_ok s' = counts_ok s" by (intro counts_ok_slot0) (simp_all add: s')
  with assms(2) show ?thesis by simp
next
  case True
  from assms(1,4) True have len: "0 < length (processesBitMap s)"
    "0 < length (processesWaitingOnPID s)"
    by (simp_all add: well_formed_def)
  show ?thesis
  proof (cases "member s' 0")
    case False
    then show ?thesis by (simp add: counts_ok_def)
  next
    case m: True
    with True len have n: "waiterCount s 0 \<noteq> 1" and b: "member s 0"
      by (auto simp add: member_def s' arr_defs split: if_splits)
    from b assms(2) have "1 \<le> sint (waiterCount s 0)" by (simp add: counts_ok_def)
    from sint_dec_pos [OF this n] True len show ?thesis
      by (simp add: counts_ok_def waiterCount_def s')
  qed
qed

lemma clearPID_inv:
  assumes "clearPID s pid = Inr (s', evs)" "well_formed cfg s" "counts_ok s"
  shows "well_formed cfg s' \<and> counts_ok s'"
proof -
  from clearPID_Inr_range [OF assms(1)] assms(2)
  have r: "0 \<le> pid" "pid < int (MAX_PROCESSES cfg)" by (simp_all add: well_formed_def)
  from assms(1) have s': "s' = s\<lparr>processesWaitingOnPID := (processesWaitingOnPID s)[nat pid := waiterCount s pid - 1],
            processesBitMap := (if waiterCount s pid = 1 then (processesBitMap s)[nat pid := False]
                                else processesBitMap s)\<rparr>"
    by (simp add: clearPID_wf [OF assms(2) r])
  have "counts_ok s'"
    by (rule decrement_inv [OF assms(2,3) r]) (simp_all add: s')
  with assms(2) show ?thesis by (simp add: s' well_formed_def)
qed

lemma join_leave_inv:
  assumes "join_leave cfg s cur pid = Inr (s', evs)" "well_formed cfg s" "counts_ok s"
  shows "well_formed cfg s' \<and> counts_ok s'"
proof -
  from join_leave_Inr_range [OF assms(1)] assms(2)
  have r: "0 \<le> pid" "pid < int (MAX_PROCESSES cfg)" by (simp_all add: well_formed_def)
  from assms(1) have s': "s' = s\<lparr>pcb_status := (pcb_status s)(cur := P_RUNNING cfg),
            processesWaitingOnPID := (processesWaitingOnPID s)[nat pid := waiterCount s pid - 1],
            processesBitMap := (if waiterCount s pid = 1 then (processesBitMap s)[nat pid := False]
                                else processesBitMap s)\<rparr>"
    by (simp add: join_leave_wf [OF assms(2) r])
  have "counts_ok s'"
    by (rule decrement_inv [OF assms(2,3) r]) (simp_all add: s')
  with assms(2) show ?thesis by (simp add: s' well_formed_def)
qed

lemma join_enter_inv:
  assumes "join_enter cfg s cur pid = Inr (s', evs)" "pid \<noteq> 0" "well_formed cfg s" "counts_ok s"
  shows "well_formed cfg s' \<and> counts_ok s'"
proof -
  from join_enter_Inr_range [OF assms(1)] assms(3)
  have r: "0 \<le> pid" "pid < int (MAX_PROCESSES cfg)" by (simp_all add: well_formed_def)
  from assms(1) have s': "processesBitMap s' = processesBitMap s"
    "processesWaitingOnPID s' = (processesWaitingOnPID s)[nat pid := waiterCount s pid + 1]"
    and wf': "well_formed cfg s'"
    using assms(3) by (auto simp add: join_enter_wf [OF assms(3) r] well_formed_def)
  from r(1) assms(2) have "nat pid \<noteq> 0" by simp
  then have "counts_ok s' = counts_ok s" by (intro counts_ok_slot0) (simp_all add: s')
  with wf' assms(4) show ?thesis by simp
qed

lemma join_zero_inv:
  assumes wf: "well_formed cfg s" and ok: "counts_ok s" and m: "0 < MAX_PROCESSES cfg"
  shows "\<exists>s'. join cfg s cur 0 envs =
                 Inr (Returned s', [EvAcquire 0, EvCount 0, EvCount 0, EvRelease 0]) \<and>
              processesBitMap s' = processesBitMap s \<and>
              processesWaitingOnPID s' = processesWaitingOnPID s \<and>
              pcbStatuses s' = pcbStatuses s \<and>
              pcbList s' = pcbList s"
proof -
  from m have r: "(0::int) \<le> 0" "(0::int) < int (MAX_PROCESSES cfg)" by simp_all
  from wf m have len: "0 < length (processesBitMap s)" "0 < length (processesWaitingOnPID s)"
    by (simp_all add: well_formed_def)
  have "(if waiterCount s 0 = 0 then (processesBitMap s)[nat 0 := False] else processesBitMap s)
          = processesBitMap s"
  proof (cases "processesBitMap s ! 0")
    case True
    with len have "member s 0" by (simp add: member_def arr_defs)
    with ok have "1 \<le> sint (waiterCount s 0)" by (simp add: counts_ok_def)
    then have "waiterCount s 0 \<noteq> 0" by auto
    then show ?thesis by simp
  next
    case False
    then have "(processesBitMap s)[0 := False] = processesBitMap s" by (metis list_update_id)
    then show ?thesis by simp
  qed
  with join_straight_through [OF wf r, of cur envs] show ?thesis by simp
qed

lemma join_zero_step_inv:
  assumes "join cfg s cur 0 envs = Inr (Returned s', evs)" "well_formed cfg s" "counts_ok s"
  shows "well_formed cfg s' \<and> counts_ok s'"
proof -
  from assms(1) obtain x where "join_enter cfg s cur 0 = Inr x"
    by (auto simp add: join_def bind_fault_eq_Inr)
  from join_enter_Inr_range [OF this] have "0 < length (lockList s)"
    by (simp del: length_greater_0_conv)
  with assms(2) have m: "0 < MAX_PROCESSES cfg"
    by (simp add: well_formed_def del: length_greater_0_conv)
  from join_zero_inv [OF assms(2,3) m, of cur envs] assms(1)
  have s': "processesBitMap s' = processesBitMap s"
    "processesWaitingOnPID s' = processesWaitingOnPID s"
    "pcbStatuses s' = pcbStatuses s" "pcbList s' = pcbList s"
    by auto
  from join_Returned [OF assms(1)] obtain s1 evs1 s2 evs3 where
    e: "join_enter cfg s cur 0 = Inr (s1, evs1)" and l: "join_leave cfg s1 cur 0 = Inr (s2, evs3)"
    and eq: "s2 = s'"
    by auto
  from m have r: "(0::int) \<le> 0" "(0::int) < int (MAX_PROCESSES cfg)" by simp_all
  from e have wf1: "well_formed cfg s1"
    using assms(2) by (auto simp add: join_enter_wf [OF assms(2) r] well_formed_def)
  from l eq have "well_formed cfg s'"
    using wf1 by (auto simp add: join_leave_wf [OF wf1 r] well_formed_def)
  moreover have "counts_ok s' = counts_ok s" by (intro counts_ok_slot0) (simp_all add: s')
  ultimately show ?thesis using assms(3) by simp
qed

lemma broadcast_inv:
  assumes "broadcast s pid = Inr (s', evs)" "well_formed cfg s" "counts_ok s"
  shows "well_formed cfg s' \<and> counts_ok s'"
proof -
  from broadcast_Inr [OF assms(1)] obtain a where
    s': "s' = s\<lparr>pcbStatuses := (pcbStatuses s)[nat pid := pcb_status s a]\<rparr>"
    by blast
  have "counts_ok s' = counts_ok s" by (rule counts_ok_slot0) (simp_all add: s')
  with assms(2,3) show ?thesis by (simp add: s' well_formed_def)
qed

lemma addProcess_inv:
  assumes "addProcess s pcb pid = Inr (s', evs)" "well_formed cfg s" "counts_ok s"
  shows "well_formed cfg s' \<and> counts_ok s'"
proof -
  note s' = addProcess_Inr [OF assms(1)]
  have "counts_ok s' = counts_ok s" by (rule counts_ok_slot0) (simp_all add: s')
  with assms(2,3) show ?thesis by (simp add: s' well_formed_def)
qed

lemma reachable_inv: "reachable cfg s \<Longrightarrow> well_formed cfg s \<and> counts_ok s"
proof (induction rule: reachable.induct)
  case (constructed w0 st0 h)
  show ?case by (simp add: well_formed_ProcessManager counts_ok_ProcessManager)
next
  case (allocated s p s' evs)
  then show ?case using getPID_inv by blast
next
  case (released s pid s' evs)
  then show ?case using clearPID_inv by blast
next
  case (registered s pcb pid s' evs)
  then show ?case using addProcess_inv by blast
next
  case (notified s pid s' evs)
  then show ?case using broadcast_inv by blast
next
  case (joined_zero s cur envs s' evs)
  then show ?case using join_zero_step_inv by blast
next
  case (entered s pid cur s' evs)
  then show ?case using join_enter_inv by blast
next
  case (left s cur pid s' evs)
  then show ?case using join_leave_inv by blast
next
  case (pcb_written s h')
  have "counts_ok (s\<lparr>pcb_status := h'\<rparr>) = counts_ok s"
    by (rule counts_ok_slot0) simp_all
  with pcb_written.IH show ?case by (simp add: well_formed_def)
qed

lemma reachable_ex_reg: "reachable ex_cfg (ex_reg 5 4)"
proof -
  have "reachable ex_cfg (ex_new 5)" unfolding ex_new_def by (rule reachable.constructed)
  from reachable.allocated [OF this getPID_ex_new]
  have "reachable ex_cfg (ex_one 5)" .
  from reachable.registered [OF this addProcess_ex_one] show ?thesis .
qed

section \<open>Status query\<close>

lemma broadcast_ex_reg:
  "broadcast (ex_reg v a) 0 = Inr ((ex_reg v a)\<lparr>pcbStatuses := [v, 0]\<rparr>, [EvStatus 0])"
  by (simp add: broadcast_def getStatus_def ex_reg_def ex_one_def ex_new_fields arr_defs)

text \<open>
  C5, as stated, fails: a process whose PCB holds the status \<open>-1\<close> is allocated,
  registered and notified; it is still a member of the identifier space, and
  \<^verbatim>\<open>getStatus\<close> returns the sentinel \<open>-1\<close> for it.
\<close>

theorem getStatus_sentinel_counterexample:
  "getPID (ex_new (- 1)) = Inr (0, ex_one (- 1), [EvCount 0, EvCount 0]) \<and>
   addProcess (ex_one (- 1)) (Some 4) 0 = Inr (ex_reg (- 1) 4, []) \<and>
   broadcast (ex_reg (- 1) 4) 0 = Inr ((ex_reg (- 1) 4)\<lparr>pcbStatuses := [- 1, 0]\<rparr>, [EvStatus 0]) \<and>
   member ((ex_reg (- 1) 4)\<lparr>pcbStatuses := [- 1, 0]\<rparr>) 0 \<and>
   getStatus ((ex_reg (- 1) 4)\<lparr>pcbStatuses := [- 1, 0]\<rparr>) 0 = Inr (- 1)"
  by (intro conjI getPID_ex_new addProcess_ex_one broadcast_ex_reg)
     (simp_all add: member_def getStatus_def ex_reg_def ex_one_def ex_new_fields arr_defs)

text \<open>
  C5, amended: for every PID in \<open>[0, MAX_PROCESSES)\<close>, \<^verbatim>\<open>getStatus(pid)\<close> returns \<open>-1\<close>
  when \<open>pid\<close> is not in the identifier space and \<^verbatim>\<open>pcbStatuses[pid]\<close> otherwise. So it
  returns the sentinel exactly when \<open>pid\<close> is not in the identifier space or the cached
  status is itself \<open>-1\<close>: the sentinel is an ordinary \<^verbatim>\<open>int\<close>, distinct from a cached
  status only when that status is not \<open>-1\<close>.
\<close>

theorem getStatus_sentinel:
  assumes "well_formed cfg s" "0 \<le> pid" "pid < int (MAX_PROCESSES cfg)"
  shows "getStatus s pid = Inr (if member s pid then cachedStatus s pid else - 1) \<and>
         (getStatus s pid = Inr (- 1) \<longleftrightarrow> \<not> member s pid \<or> cachedStatus s pid = - 1)"
  using assms by (simp add: getStatus_def well_formed_def member_def cachedStatus_def arr_defs)

theorem getStatus_sentinel_witness:
  "well_formed ex_cfg (ex_reg 5 4) \<and> (0::int) \<le> 0 \<and> (0::int) < int (MAX_PROCESSES ex_cfg) \<and>
   getStatus (ex_reg 5 4) 0 = Inr 0 \<and> member (ex_reg 5 4) 0 \<and> cachedStatus (ex_reg 5 4) 0 = 0"
proof -
  have wf: "well_formed ex_cfg (ex_reg 5 4)"
    by (simp add: well_formed_def ex_reg_def ex_one_def ex_new_fields ex_cfg_def)
  have r: "(0::int) < int (MAX_PROCESSES ex_cfg)" by (simp add: ex_cfg_def)
  have m: "member (ex_reg 5 4) 0"
    by (simp add: member_def ex_reg_def ex_one_def ex_new_fields arr_defs)
  have c: "cachedStatus (ex_reg 5 4) 0 = 0"
    by (simp add: cachedStatus_def ex_reg_def ex_one_def ex_new_fields)
  from getStatus_sentinel [OF wf order_refl r] m c wf r show ?thesis by simp
qed

section \<open>Join\<close>

lemma wakeups_ex_0: "unfinished (wakeups ex_entered (take 0 ex_envs)) 1"
  by (simp add: wakeups_def unfinished_def getStatus_def ex_entered_fields arr_defs)

lemma join_ex_two:
  "\<exists>s'. join ex_cfg ex_two 4 1 ex_envs =
     Inr (Returned s', [EvAcquire 1, EvCount 1, EvWait 1, EvWait 1, EvWait 1, EvCount 1, EvRelease 1])"
  by (simp add: join_def join_enter_ex_two bind_fault_Inr ex_envs_def wait_loop.simps
      getStatus_def ex_entered_fields arr_defs other_thread_def clearPID_def join_leave_def Let_def)

text \<open>
  C1: for every \<open>pid \<noteq> 0\<close>, \<^verbatim>\<open>join(pid)\<close> never returns while \<^verbatim>\<open>getStatus(pid)\<close> reports
  a value other than \<open>-1\<close>. Let \<open>s1\<close> be the state after the part of \<^verbatim>\<open>join\<close> before the
  loop and let the other threads act by \<open>envs\<close> during the suspensions. If \<^verbatim>\<open>join\<close> returns,
  then \<^verbatim>\<open>getStatus(pid)\<close> is \<open>-1\<close> in the state it returns in, it was \<open>-1\<close> at the test
  after some number \<open>k\<close> of wakeups and was not \<open>-1\<close> at any earlier test, and the caller
  has waited exactly \<open>k\<close> times. If the status is unfinished at the first test and after
  every wakeup, \<^verbatim>\<open>join\<close> does not return: the caller is suspended in \<^verbatim>\<open>Wait\<close>.
\<close>

theorem join_waits_until_finished:
  assumes "pid \<noteq> 0" and "join_enter cfg s cur pid = Inr (s1, evs1)"
  shows "(\<forall>s' evs. join cfg s cur pid envs = Inr (Returned s', evs) \<longrightarrow>
            getStatus s' pid = Inr (- 1) \<and>
            (\<exists>k\<le>length envs.
               getStatus (wakeups s1 (take k envs)) pid = Inr (- 1) \<and>
               (\<forall>j<k. unfinished (wakeups s1 (take j envs)) pid) \<and>
               evs = evs1 @ replicate k (EvWait pid) @ [EvCount pid, EvRelease pid])) \<and>
         ((\<forall>j\<le>length envs. unfinished (wakeups s1 (take j envs)) pid) \<longrightarrow>
            join cfg s cur pid envs =
              Inr (Suspended (wakeups s1 envs), evs1 @ replicate (Suc (length envs)) (EvWait pid)))"
proof (intro conjI allI impI)
  fix s' evs
  assume j: "join cfg s cur pid envs = Inr (Returned s', evs)"
  from join_Returned [OF j] assms obtain s2 evs2 evs3 where
    w: "wait_loop s1 pid envs = Inr (Returned s2, evs2)" and
    l: "join_leave cfg s2 cur pid = Inr (s', evs3)" and e: "evs = evs1 @ evs2 @ evs3"
    by auto
  from wait_loop_Returned [OF w] obtain k where k: "k \<le> length envs"
    "s2 = wakeups s1 (take k envs)" "getStatus s2 pid = Inr (- 1)"
    "\<forall>j<k. unfinished (wakeups s1 (take j envs)) pid" "evs2 = replicate k (EvWait pid)"
    by blast
  from join_leave_status [OF l k(3)] show "getStatus s' pid = Inr (- 1)" .
  from k e join_leave_events [OF l]
  show "\<exists>k\<le>length envs.
          getStatus (wakeups s1 (take k envs)) pid = Inr (- 1) \<and>
          (\<forall>j<k. unfinished (wakeups s1 (take j envs)) pid) \<and>
          evs = evs1 @ replicate k (EvWait pid) @ [EvCount pid, EvRelease pid]"
    by (intro exI [of _ k]) simp
next
  assume "\<forall>j\<le>length envs. unfinished (wakeups s1 (take j envs)) pid"
  from wait_loop_all_unfinished [OF this] assms
  show "join cfg s cur pid envs =
          Inr (Suspended (wakeups s1 envs), evs1 @ replicate (Suc (length envs)) (EvWait pid))"
    by (simp add: join_def bind_fault_Inr)
qed

text \<open>
  C1 at an example: PID 1 is allocated, the caller enters \<^verbatim>\<open>join(1)\<close>, is woken once with
  nothing changed and returns after the second of two \<^verbatim>\<open>clearPID(1)\<close> has removed PID 1;
  with no wakeup at all it stays suspended.
\<close>

theorem join_waits_until_finished_witness:
  "(1::int) \<noteq> 0 \<and>
   join_enter ex_cfg ex_two 4 1 = Inr (ex_entered, [EvAcquire 1, EvCount 1]) \<and>
   (\<exists>s'. join ex_cfg ex_two 4 1 ex_envs =
      Inr (Returned s', [EvAcquire 1, EvCount 1, EvWait 1, EvWait 1, EvWait 1, EvCount 1, EvRelease 1]) \<and>
      getStatus s' 1 = Inr (- 1)) \<and>
   unfinished ex_entered 1 \<and>
   join ex_cfg ex_two 4 1 [] = Inr (Suspended ex_entered, [EvAcquire 1, EvCount 1, EvWait 1])"
proof -
  have p: "(1::int) \<noteq> 0" by simp
  note t = join_waits_until_finished [OF p join_enter_ex_two]
  from join_ex_two obtain s' where
    j: "join ex_cfg ex_two 4 1 ex_envs =
      Inr (Returned s', [EvAcquire 1, EvCount 1, EvWait 1, EvWait 1, EvWait 1, EvCount 1, EvRelease 1])"
    by blast
  from t [of ex_envs] j have f: "getStatus s' 1 = Inr (- 1)" by blast
  have u: "unfinished ex_entered 1" using wakeups_ex_0 by (simp add: wakeups_def)
  then have "\<forall>j\<le>length ([] :: (state \<Rightarrow> state) list). unfinished (wakeups ex_entered (take j [])) 1"
    by (simp add: wakeups_def)
  with t [of "[]"] have
    "join ex_cfg ex_two 4 1 [] = Inr (Suspended ex_entered, [EvAcquire 1, EvCount 1, EvWait 1])"
    by (simp add: wakeups_def)
  with p join_enter_ex_two j f u show ?thesis by blast
qed

text \<open>
  C6: in every state the operations can produce from a constructed manager with at least
  one slot, \<^verbatim>\<open>join(0)\<close> returns without a call of \<^verbatim>\<open>Wait\<close>, whatever the registration or
  status of PID 0, and leaves the bit map, the waiter counts, the cached statuses and the
  PCB references as they were.
\<close>

theorem join_zero_returns:
  assumes "reachable cfg s" "0 < MAX_PROCESSES cfg"
  shows "\<exists>s'. join cfg s cur 0 envs =
                 Inr (Returned s', [EvAcquire 0, EvCount 0, EvCount 0, EvRelease 0]) \<and>
              processesBitMap s' = processesBitMap s \<and>
              processesWaitingOnPID s' = processesWaitingOnPID s \<and>
              pcbStatuses s' = pcbStatuses s \<and>
              pcbList s' = pcbList s"
  using reachable_inv [OF assms(1)] assms(2) by (simp add: join_zero_inv)

text \<open>
  C6 at an example: PID 0 is allocated and registered.
\<close>

theorem join_zero_returns_witness:
  "reachable ex_cfg (ex_reg 5 4) \<and> 0 < MAX_PROCESSES ex_cfg \<and> member (ex_reg 5 4) 0 \<and>
   (\<exists>s'. join ex_cfg (ex_reg 5 4) 4 0 [] =
            Inr (Returned s', [EvAcquire 0, EvCount 0, EvCount 0, EvRelease 0]) \<and>
         processesBitMap s' = [True, False] \<and> processesWaitingOnPID s' = [1, 7] \<and>
         pcbStatuses s' = [0, 0] \<and> pcbList s' = [Some 4, None])"
proof -
  have m: "0 < MAX_PROCESSES ex_cfg" by (simp add: ex_cfg_def)
  have f: "processesBitMap (ex_reg 5 4) = [True, False]"
    "processesWaitingOnPID (ex_reg 5 4) = [1, 7]"
    "pcbStatuses (ex_reg 5 4) = [0, 0]" "pcbList (ex_reg 5 4) = [Some 4, None]"
    by (simp_all add: ex_reg_def ex_one_fields)
  have b: "member (ex_reg 5 4) 0" by (simp add: member_def f arr_defs)
  from join_zero_returns [OF reachable_ex_reg m, of 4 "[]"] f reachable_ex_reg m b
  show ?thesis by simp
qed

text \<open>
  C10: for every PID in \<open>[1, MAX_PROCESSES)\<close> that is not in the identifier space,
  \<^verbatim>\<open>join(pid)\<close> returns normally without a call of \<^verbatim>\<open>Wait\<close>, and every waiter count and
  the membership of every PID are as before the call.
\<close>

theorem join_unallocated_returns:
  assumes "well_formed cfg s" "1 \<le> pid" "pid < int (MAX_PROCESSES cfg)" "\<not> member s pid"
  shows "\<exists>s'. join cfg s cur pid envs =
                 Inr (Returned s', [EvAcquire pid, EvCount pid, EvCount pid, EvRelease pid]) \<and>
              (\<forall>q. waiterCount s' q = waiterCount s q) \<and>
              (\<forall>q. member s' q = member s q)"
proof -
  from assms have r: "0 \<le> pid" and b: "\<not> processesBitMap s ! nat pid"
    by (simp_all add: member_def well_formed_def arr_defs)
  then have "(processesBitMap s)[nat pid := False] = processesBitMap s" by (metis list_update_id)
  with join_straight_through [OF assms(1) r assms(3), of cur envs] b
  show ?thesis by (auto simp add: waiterCount_def member_def)
qed

text \<open>
  C10 at an example: PID 1 has never been allocated.
\<close>

theorem join_unallocated_returns_witness:
  "well_formed ex_cfg (ex_one 0) \<and> (1::int) \<le> 1 \<and> (1::int) < int (MAX_PROCESSES ex_cfg) \<and>
   \<not> member (ex_one 0) 1 \<and>
   (\<exists>s'. join ex_cfg (ex_one 0) 4 1 [] =
            Inr (Returned s', [EvAcquire 1, EvCount 1, EvCount 1, EvRelease 1]) \<and>
         waiterCount s' 1 = 7 \<and> \<not> member s' 1)"
proof -
  have wf: "well_formed ex_cfg (ex_one 0)"
    by (simp add: well_formed_def ex_one_fields ex_cfg_def)
  have r: "(1::int) < int (MAX_PROCESSES ex_cfg)" by (simp add: ex_cfg_def)
  have n: "\<not> member (ex_one 0) 1" by (simp add: member_def ex_one_fields arr_defs)
  have c: "waiterCount (ex_one 0) 1 = 7" by (simp add: waiterCount_def ex_one_fields)
  from join_unallocated_returns [OF wf order_refl r n, of 4 "[]"] wf r n c
  show ?thesis by auto
qed

section \<open>The waiter count\<close>

lemma getPID_count:
  assumes "getPID s = Inr (p, s', evs)"
  shows "waiterCount s' p = 1 \<and> member s' p \<and> \<not> member s p \<and>
         (\<forall>q. q \<noteq> p \<longrightarrow> member s' q = member s q)"
proof -
  from getPID_Inr [OF assms] obtain i where i: "firstClear (processesBitMap s) = Some i" "p = int i"
    "i < length (processesWaitingOnPID s)"
    "s' = s\<lparr>processesBitMap := (processesBitMap s)[i := True],
                    processesWaitingOnPID := (processesWaitingOnPID s)[i := 1]\<rparr>"
    by blast
  from firstClear_Some [OF i(1)] i(2,3,4) show ?thesis
    by (auto simp add: waiterCount_def member_def arr_defs)
qed

lemma clearPID_count:
  assumes "clearPID s pid = Inr (s', evs)"
  shows "waiterCount s' pid = waiterCount s pid - 1 \<and>
         (member s' pid \<longleftrightarrow> member s pid \<and> waiterCount s pid \<noteq> 1) \<and>
         (\<forall>q. q \<noteq> pid \<longrightarrow> member s' q = member s q)"
  using assms
  by (auto simp add: clearPID_def waiterCount_def member_def arr_defs split: if_splits)

lemma join_leave_count:
  assumes "join_leave cfg s cur pid = Inr (s', evs)"
  shows "waiterCount s' pid = waiterCount s pid - 1 \<and>
         (member s' pid \<longleftrightarrow> member s pid \<and> waiterCount s pid \<noteq> 1) \<and>
         (\<forall>q. q \<noteq> pid \<longrightarrow> member s' q = member s q)"
  using assms
  by (auto simp add: join_leave_def getStatus_def Let_def waiterCount_def member_def arr_defs
      split: if_splits)

lemma join_enter_count:
  assumes "join_enter cfg s cur pid = Inr (s', evs)"
  shows "waiterCount s' pid = waiterCount s pid + 1 \<and> processesBitMap s' = processesBitMap s"
  using assms
  by (auto simp add: join_enter_def getStatus_def Let_def waiterCount_def arr_defs
      split: if_splits)

lemma loop_exit_ex_live: "loop_exit ex_live_entered 1 ex_live_envs 2"
proof -
  have 0: "unfinished (wakeups ex_live_entered (take 0 ex_live_envs)) 1"
    by (simp add: wakeups_def unfinished_def getStatus_def ex_live_entered_fields arr_defs)
  have 1: "unfinished (wakeups ex_live_entered (take 1 ex_live_envs)) 1"
    by (simp add: wakeups_ex_live_1 unfinished_def getStatus_def ex_live_entered_fields arr_defs)
  have 2: "getStatus (wakeups ex_live_entered (take 2 ex_live_envs)) 1 = Inr (- 1)"
    by (simp add: wakeups_ex_live_2 getStatus_def ex_live_exit_fields arr_defs)
  have "\<forall>j<2. unfinished (wakeups ex_live_entered (take j ex_live_envs)) 1"
  proof (intro allI impI)
    fix j :: nat assume "j < 2"
    then have "j = 0 \<or> j = 1" by auto
    with 0 1 show "unfinished (wakeups ex_live_entered (take j ex_live_envs)) 1" by auto
  qed
  with 2 show ?thesis by (simp add: loop_exit_def ex_live_envs_def)
qed

text \<open>
  C2: on a manager with all arrays of \<^verbatim>\<open>MAX_PROCESSES\<close> elements and for every PID in
  \<open>[0, MAX_PROCESSES)\<close>: \<^verbatim>\<open>getPID\<close>, when a free PID exists, returns the lowest one with
  its waiter count set to 1 and makes it a member. \<^verbatim>\<open>clearPID(pid)\<close> returns, has
  decremented the count of \<open>pid\<close> (in 32 bits), and \<open>pid\<close> is a member afterwards exactly
  when it was one before and the count did not go from 1 to 0; no other PID is removed.
  \<^verbatim>\<open>join(pid)\<close> increments the count before the loop and removes nothing there; when
  the loop is left after \<open>k\<close> wakeups in a state \<open>t\<close>, \<^verbatim>\<open>join\<close> returns, the count is that
  of \<open>t\<close> minus one, and \<open>pid\<close> is a member afterwards exactly when it was one in \<open>t\<close> and
  the count in \<open>t\<close> was not 1; every return of \<^verbatim>\<open>join\<close> is of this kind. \<^verbatim>\<open>addProcess\<close>
  and \<^verbatim>\<open>broadcast\<close> remove nothing.
\<close>

theorem waiter_count_reclaims:
  assumes "well_formed cfg s" "0 \<le> pid" "pid < int (MAX_PROCESSES cfg)"
  shows
  "(\<forall>i. firstClear (processesBitMap s) = Some i \<longrightarrow>
      (\<exists>s'. getPID s = Inr (int i, s', [EvCount (int i), EvCount (int i)]) \<and>
            waiterCount s' (int i) = 1 \<and> member s' (int i) \<and> \<not> member s (int i) \<and>
            (\<forall>q. q \<noteq> int i \<longrightarrow> member s' q = member s q))) \<and>
   (\<exists>s'. clearPID s pid = Inr (s', [EvCount pid]) \<and>
         waiterCount s' pid = waiterCount s pid - 1 \<and>
         (member s' pid \<longleftrightarrow> member s pid \<and> waiterCount s pid \<noteq> 1) \<and>
         (\<forall>q. q \<noteq> pid \<longrightarrow> member s' q = member s q)) \<and>
   (\<exists>s1. join_enter cfg s cur pid = Inr (s1, [EvAcquire pid, EvCount pid]) \<and>
         waiterCount s1 pid = waiterCount s pid + 1 \<and>
         (\<forall>q. member s1 q = member s q) \<and>
         (\<forall>k. loop_exit s1 pid envs k \<and> well_formed cfg (wakeups s1 (take k envs)) \<longrightarrow>
            (\<exists>s'. join cfg s cur pid envs =
                     Inr (Returned s',
                          [EvAcquire pid, EvCount pid] @ replicate k (EvWait pid) @
                          [EvCount pid, EvRelease pid]) \<and>
                  waiterCount s' pid = waiterCount (wakeups s1 (take k envs)) pid - 1 \<and>
                  (member s' pid \<longleftrightarrow>
                     member (wakeups s1 (take k envs)) pid \<and>
                     waiterCount (wakeups s1 (take k envs)) pid \<noteq> 1) \<and>
                  (\<forall>q. q \<noteq> pid \<longrightarrow> member s' q = member (wakeups s1 (take k envs)) q))) \<and>
         (\<forall>s' evs. join cfg s cur pid envs = Inr (Returned s', evs) \<longrightarrow>
            (\<exists>k. loop_exit s1 pid envs k \<and>
                 join_leave cfg (wakeups s1 (take k envs)) cur pid =
                   Inr (s', [EvCount pid, EvRelease pid])))) \<and>
   (\<exists>s'. addProcess s pcb pid = Inr (s', []) \<and> (\<forall>q. member s' q = member s q)) \<and>
   (\<forall>a. pcbList s ! nat pid = Some a \<longrightarrow>
      (\<exists>s' evs. broadcast s pid = Inr (s', evs) \<and> (\<forall>q. member s' q = member s q)))"
proof -
  have 1: "\<forall>i. firstClear (processesBitMap s) = Some i \<longrightarrow>
      (\<exists>s'. getPID s = Inr (int i, s', [EvCount (int i), EvCount (int i)]) \<and>
            waiterCount s' (int i) = 1 \<and> member s' (int i) \<and> \<not> member s (int i) \<and>
            (\<forall>q. q \<noteq> int i \<longrightarrow> member s' q = member s q))"
  proof (intro allI impI)
    fix i assume f: "firstClear (processesBitMap s) = Some i"
    from getPID_free [OF assms(1) f] getPID_count
    show "\<exists>s'. getPID s = Inr (int i, s', [EvCount (int i), EvCount (int i)]) \<and>
            waiterCount s' (int i) = 1 \<and> member s' (int i) \<and> \<not> member s (int i) \<and>
            (\<forall>q. q \<noteq> int i \<longrightarrow> member s' q = member s q)"
      by blast
  qed
  have 2: "\<exists>s'. clearPID s pid = Inr (s', [EvCount pid]) \<and>
         waiterCount s' pid = waiterCount s pid - 1 \<and>
         (member s' pid \<longleftrightarrow> member s pid \<and> waiterCount s pid \<noteq> 1) \<and>
         (\<forall>q. q \<noteq> pid \<longrightarrow> member s' q = member s q)"
    using clearPID_wf [OF assms] clearPID_count by blast
  from join_enter_wf [OF assms, of cur] obtain s1 where
    e: "join_enter cfg s cur pid = Inr (s1, [EvAcquire pid, EvCount pid])"
    by blast
  from join_enter_count [OF e] have c1: "waiterCount s1 pid = waiterCount s pid + 1"
    and m1: "\<forall>q. member s1 q = member s q"
    by (simp_all add: member_def)
  have 3: "\<forall>k. loop_exit s1 pid envs k \<and> well_formed cfg (wakeups s1 (take k envs)) \<longrightarrow>
            (\<exists>s'. join cfg s cur pid envs =
                     Inr (Returned s',
                          [EvAcquire pid, EvCount pid] @ replicate k (EvWait pid) @
                          [EvCount pid, EvRelease pid]) \<and>
                  waiterCount s' pid = waiterCount (wakeups s1 (take k envs)) pid - 1 \<and>
                  (member s' pid \<longleftrightarrow>
                     member (wakeups s1 (take k envs)) pid \<and>
                     waiterCount (wakeups s1 (take k envs)) pid \<noteq> 1) \<and>
                  (\<forall>q. q \<noteq> pid \<longrightarrow> member s' q = member (wakeups s1 (take k envs)) q))"
  proof (intro allI impI, elim conjE)
    fix k
    assume x: "loop_exit s1 pid envs k" and wft: "well_formed cfg (wakeups s1 (take k envs))"
    from join_from_exit [OF assms e x wft] obtain s' where
      j: "join cfg s cur pid envs =
            Inr (Returned s',
                 [EvAcquire pid, EvCount pid] @ replicate k (EvWait pid) @ [EvCount pid, EvRelease pid])"
      and l: "join_leave cfg (wakeups s1 (take k envs)) cur pid = Inr (s', [EvCount pid, EvRelease pid])"
      by blast
    from j join_leave_count [OF l]
    show "\<exists>s'. join cfg s cur pid envs =
                     Inr (Returned s',
                          [EvAcquire pid, EvCount pid] @ replicate k (EvWait pid) @
                          [EvCount pid, EvRelease pid]) \<and>
                  waiterCount s' pid = waiterCount (wakeups s1 (take k envs)) pid - 1 \<and>
                  (member s' pid \<longleftrightarrow>
                     member (wakeups s1 (take k envs)) pid \<and>
                     waiterCount (wakeups s1 (take k envs)) pid \<noteq> 1) \<and>
                  (\<forall>q. q \<noteq> pid \<longrightarrow> member s' q = member (wakeups s1 (take k envs)) q)"
      by blast
  qed
  have 4: "\<forall>s' evs. join cfg s cur pid envs = Inr (Returned s', evs) \<longrightarrow>
            (\<exists>k. loop_exit s1 pid envs k \<and>
                 join_leave cfg (wakeups s1 (take k envs)) cur pid =
                   Inr (s', [EvCount pid, EvRelease pid]))"
    using join_to_exit [OF _ e] by blast
  from assms have "pid < int (length (pcbList s))" by (simp add: well_formed_def)
  with assms(2) have a: "addProcess s pcb pid = Inr (s\<lparr>pcbList := (pcbList s)[nat pid := pcb]\<rparr>, [])"
    by (simp add: addProcess_def arr_defs)
  have 5: "\<exists>s'. addProcess s pcb pid = Inr (s', []) \<and> (\<forall>q. member s' q = member s q)"
    using a by (simp add: member_def)
  have 6: "\<forall>a. pcbList s ! nat pid = Some a \<longrightarrow>
      (\<exists>s' evs. broadcast s pid = Inr (s', evs) \<and> (\<forall>q. member s' q = member s q))"
  proof (intro allI impI)
    fix a assume "pcbList s ! nat pid = Some a"
    with assms have "broadcast s pid =
           Inr (s\<lparr>pcbStatuses := (pcbStatuses s)[nat pid := pcb_status s a]\<rparr>,
                EvStatus pid # (if conditionList s ! nat pid = None then [] else [EvBroadcast pid]))"
      by (simp add: broadcast_def getStatus_def well_formed_def arr_defs Let_def)
    then show "\<exists>s' evs. broadcast s pid = Inr (s', evs) \<and> (\<forall>q. member s' q = member s q)"
      by (simp add: member_def)
  qed
  from e c1 m1 3 4 have 7: "\<exists>s1. join_enter cfg s cur pid = Inr (s1, [EvAcquire pid, EvCount pid]) \<and>
         waiterCount s1 pid = waiterCount s pid + 1 \<and>
         (\<forall>q. member s1 q = member s q) \<and>
         (\<forall>k. loop_exit s1 pid envs k \<and> well_formed cfg (wakeups s1 (take k envs)) \<longrightarrow>
            (\<exists>s'. join cfg s cur pid envs =
                     Inr (Returned s',
                          [EvAcquire pid, EvCount pid] @ replicate k (EvWait pid) @
                          [EvCount pid, EvRelease pid]) \<and>
                  waiterCount s' pid = waiterCount (wakeups s1 (take k envs)) pid - 1 \<and>
                  (member s' pid \<longleftrightarrow>
                     member (wakeups s1 (take k envs)) pid \<and>
                     waiterCount (wakeups s1 (take k envs)) pid \<noteq> 1) \<and>
                  (\<forall>q. q \<noteq> pid \<longrightarrow> member s' q = member (wakeups s1 (take k envs)) q))) \<and>
         (\<forall>s' evs. join cfg s cur pid envs = Inr (Returned s', evs) \<longrightarrow>
            (\<exists>k. loop_exit s1 pid envs k \<and>
                 join_leave cfg (wakeups s1 (take k envs)) cur pid =
                   Inr (s', [EvCount pid, EvRelease pid])))"
    by (intro exI [of _ s1] conjI)
  from 1 2 7 5 6 show ?thesis by (intro conjI)
qed

text \<open>
  C2 at examples. A joiner of PID 1 is suspended with the count at 2; a \<^verbatim>\<open>clearPID(1)\<close>
  takes it to 1, a \<^verbatim>\<open>broadcast(1)\<close> caches the status \<open>-1\<close>; the joiner leaves the loop
  after the second wakeup, its decrement takes the count from 1 to 0 and it removes PID 1,
  while PID 0 stays. A \<^verbatim>\<open>clearPID(1)\<close> at count 1 removes PID 1, and the first
  \<^verbatim>\<open>getPID\<close> allocates PID 0 with count 1.
\<close>

theorem waiter_count_reclaims_witness:
  "well_formed ex_cfg ex_live \<and> (0::int) \<le> 1 \<and> (1::int) < int (MAX_PROCESSES ex_cfg) \<and>
   join_enter ex_cfg ex_live 4 1 = Inr (ex_live_entered, [EvAcquire 1, EvCount 1]) \<and>
   loop_exit ex_live_entered 1 ex_live_envs 2 \<and>
   wakeups ex_live_entered (take 2 ex_live_envs) = ex_live_exit \<and>
   well_formed ex_cfg ex_live_exit \<and> member ex_live_exit 1 \<and> waiterCount ex_live_exit 1 = 1 \<and>
   (\<exists>s'. join ex_cfg ex_live 4 1 ex_live_envs =
            Inr (Returned s', [EvAcquire 1, EvCount 1, EvWait 1, EvWait 1, EvCount 1, EvRelease 1]) \<and>
         waiterCount s' 1 = 0 \<and> \<not> member s' 1 \<and> member s' 0) \<and>
   (\<exists>s'. clearPID ex_live 1 = Inr (s', [EvCount 1]) \<and> waiterCount s' 1 = 0 \<and> \<not> member s' 1) \<and>
   firstClear (processesBitMap (ex_new 0)) = Some 0 \<and>
   (\<exists>s'. getPID (ex_new 0) = Inr (0, s', [EvCount 0, EvCount 0]) \<and>
         waiterCount s' 0 = 1 \<and> member s' 0)"
proof -
  have r: "(0::int) \<le> 1" "(1::int) < int (MAX_PROCESSES ex_cfg)" by (simp_all add: ex_cfg_def)
  note wf = well_formed_ex_live
  have wfx: "well_formed ex_cfg ex_live_exit"
    by (simp add: well_formed_def ex_live_exit_fields ex_cfg_def)
  have mx: "member ex_live_exit 1" "member ex_live_exit 0"
    by (simp_all add: member_def ex_live_exit_fields arr_defs)
  have cx: "waiterCount ex_live_exit 1 = 1"
    by (simp add: waiterCount_def ex_live_exit_fields)
  have ml: "member ex_live 1" "waiterCount ex_live 1 = 1"
    by (simp_all add: member_def waiterCount_def ex_live_fields arr_defs)
  note t = waiter_count_reclaims [OF wf r, of 4 ex_live_envs None]
  note t_clear = t [THEN conjunct2, THEN conjunct1]
  note t_join = t [THEN conjunct2, THEN conjunct2, THEN conjunct1]
  from t_join obtain s1 where
    e: "join_enter ex_cfg ex_live 4 1 = Inr (s1, [EvAcquire 1, EvCount 1])" and
    j: "\<forall>k. loop_exit s1 1 ex_live_envs k \<and> well_formed ex_cfg (wakeups s1 (take k ex_live_envs)) \<longrightarrow>
            (\<exists>s'. join ex_cfg ex_live 4 1 ex_live_envs =
                     Inr (Returned s',
                          [EvAcquire 1, EvCount 1] @ replicate k (EvWait 1) @
                          [EvCount 1, EvRelease 1]) \<and>
                  waiterCount s' 1 = waiterCount (wakeups s1 (take k ex_live_envs)) 1 - 1 \<and>
                  (member s' 1 \<longleftrightarrow>
                     member (wakeups s1 (take k ex_live_envs)) 1 \<and>
                     waiterCount (wakeups s1 (take k ex_live_envs)) 1 \<noteq> 1) \<and>
                  (\<forall>q. q \<noteq> 1 \<longrightarrow> member s' q = member (wakeups s1 (take k ex_live_envs)) q))"
    by (elim exE conjE)
  from e join_enter_ex_live have s1: "s1 = ex_live_entered" by simp
  have "loop_exit s1 1 ex_live_envs 2 \<and> well_formed ex_cfg (wakeups s1 (take 2 ex_live_envs))"
    unfolding s1 wakeups_ex_live_2 using loop_exit_ex_live wfx by (rule conjI)
  from j [rule_format, OF this]
  obtain s' where s':
    "join ex_cfg ex_live 4 1 ex_live_envs =
       Inr (Returned s', [EvAcquire 1, EvCount 1] @ replicate 2 (EvWait 1) @ [EvCount 1, EvRelease 1])"
    "waiterCount s' 1 = waiterCount (wakeups s1 (take 2 ex_live_envs)) 1 - 1"
    "member s' 1 \<longleftrightarrow> member (wakeups s1 (take 2 ex_live_envs)) 1 \<and>
       waiterCount (wakeups s1 (take 2 ex_live_envs)) 1 \<noteq> 1"
    "\<forall>q. q \<noteq> 1 \<longrightarrow> member s' q = member (wakeups s1 (take 2 ex_live_envs)) q"
    by (elim exE conjE)
  from s'(1) have j1: "join ex_cfg ex_live 4 1 ex_live_envs =
       Inr (Returned s', [EvAcquire 1, EvCount 1, EvWait 1, EvWait 1, EvCount 1, EvRelease 1])"
    by (simp add: numeral_2_eq_2)
  from s'(2) cx have j2: "waiterCount s' 1 = 0" unfolding s1 wakeups_ex_live_2 by simp
  from s'(3) cx have j3: "\<not> member s' 1" unfolding s1 wakeups_ex_live_2 by simp
  from s'(4) [rule_format, of 0] mx(2) have j4: "member s' 0" unfolding s1 wakeups_ex_live_2 by simp
  from j1 j2 j3 j4 have a: "\<exists>s'. join ex_cfg ex_live 4 1 ex_live_envs =
            Inr (Returned s', [EvAcquire 1, EvCount 1, EvWait 1, EvWait 1, EvCount 1, EvRelease 1]) \<and>
         waiterCount s' 1 = 0 \<and> \<not> member s' 1 \<and> member s' 0"
    by (intro exI [of _ s'] conjI)
  from t_clear obtain u where u: "clearPID ex_live 1 = Inr (u, [EvCount 1])"
    "waiterCount u 1 = waiterCount ex_live 1 - 1"
    "member u 1 \<longleftrightarrow> member ex_live 1 \<and> waiterCount ex_live 1 \<noteq> 1"
    by (elim exE conjE)
  from u(2) ml have u2: "waiterCount u 1 = 0" by simp
  from u(3) ml have u3: "\<not> member u 1" by simp
  from u(1) u2 u3
  have b: "\<exists>s'. clearPID ex_live 1 = Inr (s', [EvCount 1]) \<and> waiterCount s' 1 = 0 \<and> \<not> member s' 1"
    by (intro exI [of _ u] conjI)
  have f: "firstClear (processesBitMap (ex_new 0)) = Some 0" by (simp add: ex_new_fields)
  have wfn: "well_formed ex_cfg (ex_new 0)"
    by (simp add: well_formed_def ex_new_fields ex_cfg_def)
  have r0: "(0::int) \<le> 0" "(0::int) < int (MAX_PROCESSES ex_cfg)" by (simp_all add: ex_cfg_def)
  note g = waiter_count_reclaims [OF wfn r0, of 4 "[]" None, THEN conjunct1, rule_format, OF f]
  from g obtain v where v: "getPID (ex_new 0) = Inr (int 0, v, [EvCount (int 0), EvCount (int 0)])"
    "waiterCount v (int 0) = 1" "member v (int 0)"
    by (elim exE conjE)
  then have c: "\<exists>s'. getPID (ex_new 0) = Inr (0, s', [EvCount 0, EvCount 0]) \<and>
         waiterCount s' 0 = 1 \<and> member s' 0"
    by (intro exI [of _ v]) simp
  from wf r join_enter_ex_live loop_exit_ex_live wakeups_ex_live_2 wfx mx(1) cx a b f c
  show ?thesis by (intro conjI)
qed

text \<open>
  C4, as stated, fails: after \<^verbatim>\<open>getPID\<close> and \<^verbatim>\<open>clearPID(0)\<close> the waiter count of PID 0
  is 0; a second \<^verbatim>\<open>clearPID(0)\<close> is not rejected, it returns and leaves the count \<open>-1\<close>.
\<close>

theorem clearPID_double_release_counterexample:
  "clearPID (ex_one 0) 0 = Inr (ex_released, [EvCount 0]) \<and>
   waiterCount ex_released 0 = 0 \<and>
   clearPID ex_released 0 = Inr (ex_released\<lparr>processesWaitingOnPID := [- 1, 7]\<rparr>, [EvCount 0])"
  by (intro conjI clearPID_ex_one)
     (simp_all add: clearPID_def waiterCount_def ex_released_def ex_one_fields arr_defs)

text \<open>
  C4, amended: for every PID in \<open>[0, MAX_PROCESSES)\<close>, \<^verbatim>\<open>clearPID(pid)\<close> returns and has
  decremented the waiter count of \<open>pid\<close>, whatever its value: from 0 it goes to \<open>-1\<close> (the
  code has no failure for a double release), and the decrement is that of a 32-bit
  \<^verbatim>\<open>int\<close>, so from \<^verbatim>\<open>INT_MIN\<close> it goes to \<^verbatim>\<open>INT_MAX\<close>. The other counts are unchanged,
  and \<open>pid\<close> is a member afterwards exactly when it was one before and the count was
  not 1.
\<close>

theorem clearPID_always_decrements:
  assumes "well_formed cfg s" "0 \<le> pid" "pid < int (MAX_PROCESSES cfg)"
  shows "\<exists>s'. clearPID s pid = Inr (s', [EvCount pid]) \<and>
              waiterCount s' pid = waiterCount s pid - 1 \<and>
              (\<forall>q. q \<noteq> pid \<longrightarrow> 0 \<le> q \<longrightarrow> waiterCount s' q = waiterCount s q) \<and>
              (member s' pid \<longleftrightarrow> member s pid \<and> waiterCount s pid \<noteq> 1)"
proof -
  from assms have len: "nat pid < length (processesWaitingOnPID s)" by (simp add: well_formed_def)
  let ?s' = "s\<lparr>processesWaitingOnPID := (processesWaitingOnPID s)[nat pid := waiterCount s pid - 1],
            processesBitMap := (if waiterCount s pid = 1 then (processesBitMap s)[nat pid := False]
                                else processesBitMap s)\<rparr>"
  have c: "clearPID s pid = Inr (?s', [EvCount pid])" by (rule clearPID_wf [OF assms])
  from clearPID_count [OF c] have
    "waiterCount ?s' pid = waiterCount s pid - 1"
    "member ?s' pid \<longleftrightarrow> member s pid \<and> waiterCount s pid \<noteq> 1"
    by blast+
  moreover have "\<forall>q. q \<noteq> pid \<longrightarrow> 0 \<le> q \<longrightarrow> waiterCount ?s' q = waiterCount s q"
    using assms(2) by (auto simp add: waiterCount_def nat_eq_iff)
  ultimately show ?thesis using c by blast
qed

text \<open>
  C4, amended, at two examples: the second release of PID 0, which leaves \<open>-1\<close>, and a
  release on a new manager whose count cell holds \<^verbatim>\<open>INT_MIN\<close>, which leaves \<^verbatim>\<open>INT_MAX\<close>.
\<close>

theorem clearPID_always_decrements_witness:
  "well_formed ex_cfg ex_released \<and> (0::int) \<le> 0 \<and> (0::int) < int (MAX_PROCESSES ex_cfg) \<and>
   waiterCount ex_released 0 = 0 \<and>
   (\<exists>s'. clearPID ex_released 0 = Inr (s', [EvCount 0]) \<and> waiterCount s' 0 = - 1) \<and>
   well_formed ex_cfg ex_min \<and> waiterCount ex_min 0 = - 2147483648 \<and>
   (\<exists>s'. clearPID ex_min 0 = Inr (s', [EvCount 0]) \<and> waiterCount s' 0 = 2147483647)"
proof -
  have wf: "well_formed ex_cfg ex_released"
    by (simp add: well_formed_def ex_released_def ex_one_fields ex_cfg_def)
  have wfm: "well_formed ex_cfg ex_min"
    by (simp add: well_formed_def ex_min_fields ex_cfg_def)
  have r: "(0::int) < int (MAX_PROCESSES ex_cfg)" by (simp add: ex_cfg_def)
  have z: "waiterCount ex_released 0 = 0" by (simp add: waiterCount_def ex_released_def)
  have m: "waiterCount ex_min 0 = - 2147483648" by (simp add: waiterCount_def ex_min_fields)
  from clearPID_always_decrements [OF wf order_refl r] obtain u where
    u: "clearPID ex_released 0 = Inr (u, [EvCount 0])"
    "waiterCount u 0 = waiterCount ex_released 0 - 1"
    by (elim exE conjE)
  from u(2) z have "waiterCount u 0 = - 1" by simp
  with u(1) have a: "\<exists>s'. clearPID ex_released 0 = Inr (s', [EvCount 0]) \<and> waiterCount s' 0 = - 1"
    by (intro exI [of _ u] conjI)
  from clearPID_always_decrements [OF wfm order_refl r] obtain v where
    v: "clearPID ex_min 0 = Inr (v, [EvCount 0])"
    "waiterCount v 0 = waiterCount ex_min 0 - 1"
    by (elim exE conjE)
  from v(2) m have "waiterCount v 0 = 2147483647" by simp
  with v(1) have b: "\<exists>s'. clearPID ex_min 0 = Inr (s', [EvCount 0]) \<and> waiterCount s' 0 = 2147483647"
    by (intro exI [of _ v] conjI)
  from wf wfm r z m a b show ?thesis by (intro conjI) simp_all
qed

lemma count_guarded_waits:
  "count_guarded held (replicate k (EvWait p) @ evs) = count_guarded held evs"
  by (induction k) simp_all

lemma join_guarded:
  assumes "join cfg s cur pid envs = Inr (r, evs)"
  shows "count_guarded [] evs"
proof -
  from join_events [OF assms] obtain k where
    "evs = [EvAcquire pid, EvCount pid] @ replicate k (EvWait pid) @
                    (case r of Returned _ \<Rightarrow> [EvCount pid, EvRelease pid] | Suspended _ \<Rightarrow> [])"
    by blast
  then show ?thesis
    using count_guarded_waits [of "[pid]" k pid "[]"]
    by (cases r) (simp_all add: count_guarded_waits)
qed

text \<open>
  C9, as stated, fails: the first \<^verbatim>\<open>getPID\<close> on a new manager writes the waiter count of
  PID 0 (from 7 to 1) without acquiring a lock, and no lock exists for PID 0 before or
  after the call.
\<close>

theorem waiter_count_locking_counterexample:
  "getPID (ex_new 0) = Inr (0, ex_one 0, [EvCount 0, EvCount 0]) \<and>
   lockList (ex_new 0) ! 0 = None \<and> lockList (ex_one 0) ! 0 = None \<and>
   waiterCount (ex_new 0) 0 = 7 \<and> waiterCount (ex_one 0) 0 = 1 \<and>
   \<not> count_guarded [] [EvCount 0, EvCount 0]"
  by (intro conjI getPID_ex_new) (simp_all add: waiterCount_def ex_one_fields ex_new_fields)

text \<open>
  C9, amended: \<^verbatim>\<open>join(pid)\<close> writes the waiter count of \<open>pid\<close> only between \<^verbatim>\<open>Acquire\<close>
  and \<^verbatim>\<open>Release\<close> of the lock of the slot \<open>pid\<close>, and \<^verbatim>\<open>broadcast\<close> does not write the
  waiter counts. \<^verbatim>\<open>getPID\<close> and \<^verbatim>\<open>clearPID\<close> write the count without a call on any lock
  of the manager: their only events are the writes, and they create no lock.
\<close>

theorem waiter_count_locking:
  "(\<forall>r evs. join cfg s cur pid envs = Inr (r, evs) \<longrightarrow> count_guarded [] evs) \<and>
   (\<forall>s' evs. broadcast s pid = Inr (s', evs) \<longrightarrow>
      processesWaitingOnPID s' = processesWaitingOnPID s \<and> EvCount pid \<notin> set evs) \<and>
   (\<forall>p s' evs. getPID s = Inr (p, s', evs) \<longrightarrow>
      evs = [EvCount p, EvCount p] \<and> lockList s' = lockList s) \<and>
   (\<forall>s' evs. clearPID s pid = Inr (s', evs) \<longrightarrow>
      evs = [EvCount pid] \<and> lockList s' = lockList s)"
proof -
  have 1: "\<forall>r evs. join cfg s cur pid envs = Inr (r, evs) \<longrightarrow> count_guarded [] evs"
    using join_guarded by blast
  have 2: "\<forall>s' evs. broadcast s pid = Inr (s', evs) \<longrightarrow>
      processesWaitingOnPID s' = processesWaitingOnPID s \<and> EvCount pid \<notin> set evs"
  proof (intro allI impI)
    fix s' evs assume b: "broadcast s pid = Inr (s', evs)"
    from broadcast_Inr [OF b] broadcast_events [OF b]
    show "processesWaitingOnPID s' = processesWaitingOnPID s \<and> EvCount pid \<notin> set evs"
      by auto
  qed
  have 3: "\<forall>p s' evs. getPID s = Inr (p, s', evs) \<longrightarrow>
      evs = [EvCount p, EvCount p] \<and> lockList s' = lockList s"
  proof (intro allI impI)
    fix p s' evs assume g: "getPID s = Inr (p, s', evs)"
    from getPID_Inr [OF g] show "evs = [EvCount p, EvCount p] \<and> lockList s' = lockList s"
      by auto
  qed
  have 4: "\<forall>s' evs. clearPID s pid = Inr (s', evs) \<longrightarrow>
      evs = [EvCount pid] \<and> lockList s' = lockList s"
    by (auto simp add: clearPID_def arr_defs split: if_splits)
  from 1 2 3 4 show ?thesis by (intro conjI)
qed

text \<open>
  C9, amended, at an example: a joiner suspended on PID 1, and the first \<^verbatim>\<open>getPID\<close>.
\<close>

theorem waiter_count_locking_witness:
  "join ex_cfg ex_two 4 1 [] = Inr (Suspended ex_entered, [EvAcquire 1, EvCount 1, EvWait 1]) \<and>
   count_guarded [] [EvAcquire 1, EvCount 1, EvWait 1] \<and>
   getPID (ex_new 0) = Inr (0, ex_one 0, [EvCount 0, EvCount 0]) \<and>
   lockList (ex_one 0) = lockList (ex_new 0)"
proof -
  have j: "join ex_cfg ex_two 4 1 [] = Inr (Suspended ex_entered, [EvAcquire 1, EvCount 1, EvWait 1])"
    by (simp add: join_def join_enter_ex_two bind_fault_Inr wait_loop.simps getStatus_def
        ex_entered_fields arr_defs)
  from waiter_count_locking [of ex_cfg ex_two 4 1 "[]"] j
  have a: "count_guarded [] [EvAcquire 1, EvCount 1, EvWait 1]"
    by (elim conjE) simp
  from waiter_count_locking [of ex_cfg "ex_new 0" 4 1 "[]"]
  have "\<And>p s' evs. getPID (ex_new 0) = Inr (p, s', evs) \<Longrightarrow> lockList s' = lockList (ex_new 0)"
    by (elim conjE) simp
  from this [OF getPID_ex_new [of 0]] j a getPID_ex_new [of 0] show ?thesis by simp
qed

section \<open>Allocation\<close>

lemma replicate_update_next:
  "(replicate k a @ replicate (Suc n) b)[k := a] = replicate (Suc k) a @ replicate n b"
  by (simp add: list_update_append replicate_append_same)

lemma map_upt_update_next:
  assumes "k < n"
  shows "(replicate k a @ map f [k..<n])[k := a] = replicate (Suc k) a @ map f [Suc k..<n]"
  using assms by (simp add: list_update_append upt_conv_Cons replicate_append_same)

lemma allocate_times_prefix:
  assumes "k \<le> MAX_PROCESSES cfg"
  shows "allocate_times k (ProcessManager cfg w0 st0 h) =
           Inr ((ProcessManager cfg w0 st0 h)
                  \<lparr>processesBitMap := replicate k True @ replicate (MAX_PROCESSES cfg - k) False,
                   processesWaitingOnPID := replicate k 1 @ map w0 [k..<MAX_PROCESSES cfg]\<rparr>)"
  using assms
proof (induction k)
  case 0
  show ?case by (simp add: ProcessManager_def)
next
  case (Suc k)
  let ?t = "(ProcessManager cfg w0 st0 h)
                  \<lparr>processesBitMap := replicate k True @ replicate (MAX_PROCESSES cfg - k) False,
                   processesWaitingOnPID := replicate k 1 @ map w0 [k..<MAX_PROCESSES cfg]\<rparr>"
  from Suc.prems obtain n where n: "MAX_PROCESSES cfg - k = Suc n" "MAX_PROCESSES cfg - Suc k = n"
    by (cases "MAX_PROCESSES cfg - k") auto
  from Suc have a: "allocate_times k (ProcessManager cfg w0 st0 h) = Inr ?t" by simp
  have wf: "well_formed cfg ?t"
    using Suc.prems by (simp add: well_formed_def ProcessManager_def)
  have f: "firstClear (processesBitMap ?t) = Some k"
    by (simp add: n firstClear_prefix)
  have k: "k < MAX_PROCESSES cfg" using Suc.prems by simp
  have u: "?t\<lparr>processesBitMap := (processesBitMap ?t)[k := True],
               processesWaitingOnPID := (processesWaitingOnPID ?t)[k := 1]\<rparr> =
           (ProcessManager cfg w0 st0 h)
              \<lparr>processesBitMap := replicate (Suc k) True @ replicate (MAX_PROCESSES cfg - Suc k) False,
               processesWaitingOnPID := replicate (Suc k) 1 @ map w0 [Suc k..<MAX_PROCESSES cfg]\<rparr>"
    by (simp add: n replicate_update_next map_upt_update_next [OF k]
        del: replicate_Suc replicate.simps)
  have "allocate_times (Suc k) (ProcessManager cfg w0 st0 h) =
          bind_fault (getPID ?t) (\<lambda>(p, t', evs). Inr t')"
    by (simp only: allocate_times.simps a bind_fault_Inr)
  also have "\<dots> = Inr (?t\<lparr>processesBitMap := (processesBitMap ?t)[k := True],
               processesWaitingOnPID := (processesWaitingOnPID ?t)[k := 1]\<rparr>)"
    by (simp only: getPID_free [OF wf f] bind_fault_Inr prod.case)
  finally show ?case by (simp only: u)
qed

text \<open>
  C3 at the exhausted manager: for every capacity and every first content of the arrays,
  \<^verbatim>\<open>MAX_PROCESSES\<close> calls of \<^verbatim>\<open>getPID\<close> on a new manager succeed and allocate every PID.
  In the next call \<^verbatim>\<open>Find\<close> returns \<open>-1\<close> and leaves the bit map as it is, and
  \<^verbatim>\<open>getPID\<close> uses \<open>-1\<close> as an index of \<^verbatim>\<open>processesWaitingOnPID\<close>: the call is not a
  reported failure that leaves the state alone, it writes outside the array.
\<close>

theorem getPID_exhausted:
  "allocate_times (MAX_PROCESSES cfg) (ProcessManager cfg w0 st0 h) = Inr (all_allocated cfg w0 st0 h) \<and>
   Find (processesBitMap (all_allocated cfg w0 st0 h)) = (- 1, processesBitMap (all_allocated cfg w0 st0 h)) \<and>
   getPID (all_allocated cfg w0 st0 h) = Inl OutOfBounds"
proof -
  have n: "firstClear (processesBitMap (all_allocated cfg w0 st0 h)) = None"
    by (simp add: firstClear_None all_allocated_def)
  show ?thesis
    by (simp add: allocate_times_prefix all_allocated_def [symmetric] getPID_none_free [OF n] Find_def n)
qed

section \<open>Registration and notification\<close>

text \<open>
  C8, as stated, fails: PID 0 is registered with the PCB at address 4; a second
  \<^verbatim>\<open>addProcess\<close> for PID 0 with the PCB at address 9 is not rejected, it returns and has
  replaced the reference.
\<close>

theorem addProcess_overwrites_counterexample:
  "pcbList (ex_reg 0 4) ! 0 = Some 4 \<and>
   addProcess (ex_reg 0 4) (Some 9) 0 = Inr ((ex_reg 0 4)\<lparr>pcbList := [Some 9, None]\<rparr>, [])"
  by (simp add: addProcess_def ex_reg_def ex_one_def ex_new_fields arr_defs)

text \<open>
  C8, amended: for every PID in \<open>[0, MAX_PROCESSES)\<close>, \<^verbatim>\<open>addProcess(pcb, pid)\<close> returns and
  has stored \<open>pcb\<close> in the slot of \<open>pid\<close>, whether the slot was empty or held a reference
  (which is overwritten) and whether or not \<open>pid\<close> is allocated; nothing else changes.
\<close>

theorem addProcess_records:
  assumes "0 \<le> pid" "pid < int (length (pcbList s))"
  shows "addProcess s pcb pid = Inr (s\<lparr>pcbList := (pcbList s)[nat pid := pcb]\<rparr>, [])"
  using assms by (simp add: addProcess_def arr_defs)

text \<open>
  C8, amended, at an example: the first registration of PID 0.
\<close>

theorem addProcess_records_witness:
  "(0::int) \<le> 0 \<and> (0::int) < int (length (pcbList (ex_one 0))) \<and>
   addProcess (ex_one 0) (Some 4) 0 = Inr ((ex_one 0)\<lparr>pcbList := (pcbList (ex_one 0))[nat 0 := Some 4]\<rparr>, [])"
proof -
  have r: "(0::int) < int (length (pcbList (ex_one 0)))"
    by (simp add: ex_one_def ex_new_fields)
  from addProcess_records [OF order_refl r] r show ?thesis by simp
qed

text \<open>
  C7: for a registered PID in \<open>[0, MAX_PROCESSES)\<close>, \<^verbatim>\<open>broadcast(pid)\<close> first copies the
  status of the PCB into \<^verbatim>\<open>pcbStatuses[pid]\<close> and then, if and only if a condition exists
  for \<open>pid\<close>, calls \<^verbatim>\<open>Broadcast\<close> on it; with no condition it makes no call on a
  synchronisation object. Nothing else changes.
\<close>

theorem broadcast_copies_then_wakes:
  assumes "well_formed cfg s" "0 \<le> pid" "pid < int (MAX_PROCESSES cfg)"
    and "pcbList s ! nat pid = Some a"
  shows "broadcast s pid =
           Inr (s\<lparr>pcbStatuses := (pcbStatuses s)[nat pid := pcb_status s a]\<rparr>,
                EvStatus pid # (if conditionList s ! nat pid = None then [] else [EvBroadcast pid]))"
  using assms by (simp add: broadcast_def getStatus_def well_formed_def arr_defs Let_def)

text \<open>
  C7 at two examples: PID 0 registered and never joined, and PID 0 with a condition.
\<close>

theorem broadcast_copies_then_wakes_witness:
  "well_formed ex_cfg (ex_reg 5 4) \<and> (0::int) \<le> 0 \<and> (0::int) < int (MAX_PROCESSES ex_cfg) \<and>
   pcbList (ex_reg 5 4) ! nat 0 = Some 4 \<and>
   broadcast (ex_reg 5 4) 0 = Inr ((ex_reg 5 4)\<lparr>pcbStatuses := [5, 0]\<rparr>, [EvStatus 0]) \<and>
   well_formed ex_cfg ex_joined \<and> pcbList ex_joined ! nat 0 = Some 4 \<and>
   broadcast ex_joined 0 = Inr (ex_joined\<lparr>pcbStatuses := [5, 0]\<rparr>, [EvStatus 0, EvBroadcast 0])"
proof -
  have f: "pcbList (ex_reg 5 4) = [Some 4, None]" "pcbStatuses (ex_reg 5 4) = [0, 0]"
    "conditionList (ex_reg 5 4) = [None, None]" "pcb_status (ex_reg 5 4) = (\<lambda>_. 5)"
    by (simp_all add: ex_reg_def ex_one_fields)
  have g: "pcbList ex_joined = [Some 4, None]" "pcbStatuses ex_joined = [0, 0]"
    "conditionList ex_joined = [Some (Condition ''''), None]" "pcb_status ex_joined = (\<lambda>_. 5)"
    by (simp_all add: ex_joined_def f)
  have wf: "well_formed ex_cfg (ex_reg 5 4)"
    by (simp add: well_formed_def ex_reg_def ex_one_fields ex_cfg_def)
  have wf': "well_formed ex_cfg ex_joined"
    by (simp add: well_formed_def ex_joined_def ex_reg_def ex_one_fields ex_cfg_def)
  have r: "(0::int) < int (MAX_PROCESSES ex_cfg)" by (simp add: ex_cfg_def)
  have p: "pcbList (ex_reg 5 4) ! nat 0 = Some 4" by (simp add: f)
  have p': "pcbList ex_joined ! nat 0 = Some 4" by (simp add: g)
  from broadcast_copies_then_wakes [OF wf order_refl r p]
       broadcast_copies_then_wakes [OF wf' order_refl r p'] wf wf' r p p'
  show ?thesis by (simp add: f g)
qed

end
